theory Spec2Isabelle
  imports Complex_Main
begin

section \<open>Python values used by \<^verbatim>\<open>ensembler/tools/quick_model.py\<close>\<close>

text \<open>
  A Python float is a finite value, an infinity or NaN. Only the comparison \<^verbatim>\<open>>\<close> of
  floats is used by the program; it is the order of the values, false whenever NaN takes
  part.
\<close>

datatype pyfloat = Finite rat | PosInf | NegInf | NaN

fun float_gt :: "pyfloat \<Rightarrow> pyfloat \<Rightarrow> bool" where
  "float_gt (Finite a) (Finite b) = (b < a)"
| "float_gt (Finite a) NegInf = True"
| "float_gt PosInf (Finite b) = True"
| "float_gt PosInf NegInf = True"
| "float_gt _ _ = False"

text \<open>
  Truth value of an optional string or list (\<^verbatim>\<open>if x\<close>, \<^verbatim>\<open>not x\<close>): \<^verbatim>\<open>None\<close> and the
  empty sequence are false. For an optional integer, \<^verbatim>\<open>None\<close> and \<^verbatim>\<open>0\<close> are false.
\<close>

definition truthy :: "'a list option \<Rightarrow> bool" where
  "truthy x = (case x of None \<Rightarrow> False | Some xs \<Rightarrow> xs \<noteq> [])"

definition truthy_int :: "int option \<Rightarrow> bool" where
  "truthy_int x = (case x of None \<Rightarrow> False | Some n \<Rightarrow> n \<noteq> 0)"

text \<open>\<^verbatim>\<open>'%s' % x\<close> for an optional string.\<close>

definition str_of :: "string option \<Rightarrow> string" where
  "str_of x = (case x of None \<Rightarrow> ''None'' | Some s \<Rightarrow> s)"

text \<open>\<^verbatim>\<open>str.split()\<close> with no argument: the maximal runs of non-whitespace characters.\<close>

definition isspace :: "char \<Rightarrow> bool" where
  "isspace c = (c \<in> set [CHR '' '', CHR 0x09, CHR 0x0A, CHR 0x0B, CHR 0x0C, CHR 0x0D])"

fun split_from :: "string \<Rightarrow> string \<Rightarrow> string list" where
  "split_from cur [] = (if cur = [] then [] else [rev cur])"
| "split_from cur (c # cs) =
     (if isspace c then (if cur = [] then split_from [] cs else rev cur # split_from [] cs)
      else split_from (c # cur) cs)"

definition py_split :: "string \<Rightarrow> string list" where
  "py_split line = split_from [] line"

text \<open>\<^verbatim>\<open>str.lower()\<close> on ASCII letters.\<close>

definition lower_char :: "char \<Rightarrow> char" where
  "lower_char c =
     (let n = (of_char c :: nat) in if 65 \<le> n \<and> n \<le> 90 then char_of (n + 32) else c)"

definition lower :: "string \<Rightarrow> string" where
  "lower s = map lower_char s"

text \<open>\<^verbatim>\<open>os.path.join\<close> (POSIX) of two components; the three-component call is its iteration.\<close>

definition path_join :: "string \<Rightarrow> string \<Rightarrow> string" where
  "path_join a b =
     (if (case b of [] \<Rightarrow> False | c # _ \<Rightarrow> c = CHR ''/'') then b
      else if a = [] \<or> last a = CHR ''/'' then a @ b
      else a @ ''/'' @ b)"

text \<open>\<^verbatim>\<open>range(start, stop, step)\<close> for a positive step.\<close>

function range_step :: "int \<Rightarrow> int \<Rightarrow> int \<Rightarrow> int list" where
  "range_step i stop step =
     (if 0 < step \<and> i < stop then i # range_step (i + step) stop step else [])"
  by pat_completeness auto
termination
  by (relation "measure (\<lambda>(i, stop, step). nat (stop - i))") auto

declare range_step.simps [simp del]

section \<open>The object, the collaborators and the call log\<close>

text \<open>The attributes of a \<^verbatim>\<open>QuickModel\<close> object, as \<^verbatim>\<open>__init__\<close> stores them (lines 36-48).\<close>

record 'q QuickModel =
  targetid :: "string option"
  templateids :: "string list option"
  target_uniprot_entry_name :: "string option"
  uniprot_domain_regex :: "string option"
  pdbids :: "string list option"
  chainids :: "(string \<times> string list) list option"
  template_uniprot_query :: "string option"
  model_seqid_cutoff :: "pyfloat option"
  loopmodel :: bool
  package_for_fah :: bool
  nfahclones :: "int option"
  structure_dirs :: "string list option"
  sim_length :: 'q

text \<open>
  Every call that leaves the module, with its arguments, in the order of the source.
  A keyword argument that is not passed is \<open>None\<close>. The two \<^verbatim>\<open>print\<close> calls keep their
  arguments instead of the formatted text.
\<close>

datatype 'q call =
    Init_Project string
  | Gather_Targets_From_UniProt string "string option"
  | Get_Templates_Resolved_Seq
  | Gather_Templates_From_Pdb "string list option" "string option"
      "(string \<times> string list) list option" "string list option"
  | Gather_Templates_From_Uniprot "string option" "string option" "string list option"
  | Align_Targets_And_Templates "string option" "string list option"
  | Open_Readlines string
  | Print_Ntemplates int nat
  | Print_Chosen pyfloat nat
  | Raw_Input string
  | Warn string
  | Model_Template_Loops "string list option"
  | Build_Models "string option" "string list option"
  | Cluster_Models "string option"
  | Refine_Implicit_Md "string option" "string list option" 'q
  | Solvate_Models "string option" "string list option"
  | Determine_Nwaters "string option" "string list option"
  | Refine_Explicit_Md "string option" "string list option" 'q
  | Package_For_Fah "string option" int

text \<open>
  \<open>Exception msg\<close> is \<^verbatim>\<open>raise Exception(msg)\<close> of this module; \<open>Raised x\<close> is whatever a
  collaborator raised, which the module never catches.
\<close>

datatype error = Exception string | IndexError | ValueError | AttributeError | Raised string

text \<open>
  The collaborators, over a world \<open>'w\<close> (file system, network, console) they read and change.
  \<open>perform\<close> gives the effect of the calls whose result the module ignores; the others return
  what the module reads from them: the ids of \<^verbatim>\<open>GatherTargetsFromUniProt(...).targets\<close>
  and of \<^verbatim>\<open>get_templates_resolved_seq()\<close>, the lines of a file, a line of input, and the
  builtin \<^verbatim>\<open>float\<close> (\<open>None\<close> for \<^verbatim>\<open>ValueError\<close>). The two directory names are
  \<^verbatim>\<open>ensembler.core.default_project_dirnames\<close>. \<open>Inl x\<close> is the exception a collaborator raises;
  the module catches none, so the run ends there and nothing reads the world afterwards.
\<close>

record ('w, 'q) collaborators =
  templates_dirname :: string
  models_dirname :: string
  check_project_toplevel_dir :: "'w \<Rightarrow> bool"
  path_exists :: "string \<Rightarrow> 'w \<Rightarrow> bool"
  GatherTargetsFromUniProt :: "string \<Rightarrow> string option \<Rightarrow> 'w \<Rightarrow> string + (string list \<times> 'w)"
  get_templates_resolved_seq :: "'w \<Rightarrow> string + string list"
  readlines :: "string \<Rightarrow> 'w \<Rightarrow> string + string list"
  raw_input :: "string \<Rightarrow> 'w \<Rightarrow> string + (string \<times> 'w)"
  py_float :: "string \<Rightarrow> pyfloat option"
  perform :: "'q call \<Rightarrow> 'w \<Rightarrow> string + 'w"

record ('w, 'q) state =
  world :: 'w
  trace :: "'q call list"

definition log :: "'q call \<Rightarrow> ('w, 'q) state \<Rightarrow> ('w, 'q) state" where
  "log c s = s\<lparr>trace := trace s @ [c]\<rparr>"

definition invoke ::
  "('w, 'q) collaborators \<Rightarrow> 'q call \<Rightarrow> ('w, 'q) state \<Rightarrow> (error + unit) \<times> ('w, 'q) state" where
  "invoke env c s =
     (case perform env c (world s) of
        Inl x \<Rightarrow> (Inl (Raised x), log c s)
      | Inr w \<Rightarrow> (Inr (), log c (s\<lparr>world := w\<rparr>)))"

definition input ::
  "('w, 'q) collaborators \<Rightarrow> string \<Rightarrow> ('w, 'q) state \<Rightarrow> (error + string) \<times> ('w, 'q) state" where
  "input env prompt s =
     (case raw_input env prompt (world s) of
        Inl x \<Rightarrow> (Inl (Raised x), log (Raw_Input prompt) s)
      | Inr (a, w) \<Rightarrow> (Inr a, log (Raw_Input prompt) (s\<lparr>world := w\<rparr>)))"

section \<open>\<^verbatim>\<open>_select_templates_based_on_seqid_cutoff\<close> (lines 100-134)\<close>

text \<open>Lines 108-110: the first column of every line, then the second column as floats.\<close>

fun first_column :: "string list list \<Rightarrow> error + string list" where
  "first_column [] = Inr []"
| "first_column (i # rest) =
     (case i of
        [] \<Rightarrow> Inl IndexError
      | t # _ \<Rightarrow> (case first_column rest of Inl e \<Rightarrow> Inl e | Inr ts \<Rightarrow> Inr (t # ts)))"

fun second_column :: "(string \<Rightarrow> pyfloat option) \<Rightarrow> string list list \<Rightarrow> error + pyfloat list" where
  "second_column flt [] = Inr []"
| "second_column flt (i # rest) =
     (case i of
        _ # v # _ \<Rightarrow>
          (case flt v of
             None \<Rightarrow> Inl ValueError
           | Some x \<Rightarrow> (case second_column flt rest of Inl e \<Rightarrow> Inl e | Inr xs \<Rightarrow> Inr (x # xs)))
      | _ \<Rightarrow> Inl IndexError)"

text \<open>The data frame of lines 112-115, as its rows.\<close>

definition read_seqids ::
  "(string \<Rightarrow> pyfloat option) \<Rightarrow> string list \<Rightarrow> error + (string \<times> pyfloat) list" where
  "read_seqids flt lines =
     (let seqids_list = map py_split lines in
      case first_column seqids_list of
        Inl e \<Rightarrow> Inl e
      | Inr tids \<Rightarrow>
          (case second_column flt seqids_list of
             Inl e \<Rightarrow> Inl e
           | Inr seqids \<Rightarrow> Inr (zip tids seqids)))"

text \<open>\<^verbatim>\<open>df[df.seqids > cutoff]\<close>, its length, and its \<^verbatim>\<open>templateids\<close> column.\<close>

definition rows_above :: "(string \<times> pyfloat) list \<Rightarrow> pyfloat \<Rightarrow> (string \<times> pyfloat) list" where
  "rows_above df cutoff = filter (\<lambda>row. float_gt (snd row) cutoff) df"

definition ntemplates :: "(string \<times> pyfloat) list \<Rightarrow> pyfloat \<Rightarrow> nat" where
  "ntemplates df cutoff = length (rows_above df cutoff)"

definition selected_templateids :: "(string \<times> pyfloat) list \<Rightarrow> pyfloat \<Rightarrow> string list" where
  "selected_templateids df cutoff = map fst (rows_above df cutoff)"

text \<open>Lines 118-120.\<close>

definition print_histogram ::
  "(string \<times> pyfloat) list \<Rightarrow> ('w, 'q) state \<Rightarrow> ('w, 'q) state" where
  "print_histogram df s =
     fold (\<lambda>cutoff. log (Print_Ntemplates cutoff (ntemplates df (Finite (of_int cutoff)))))
       (range_step 0 101 10) s"

definition cutoff_prompt :: "string option \<Rightarrow> string" where
  "cutoff_prompt tid =
     ''Choose a sequence identity cutoff for target '' @ str_of tid @ '' (confirm at next step): ''"

definition confirm_prompt :: string where
  "confirm_prompt = ''Use this sequence identity cutoff? (y|N): ''"

definition affirmative :: "string \<Rightarrow> bool" where
  "affirmative answer = (lower answer \<in> set [''y'', ''yes''])"

text \<open>
  Lines 124-127, the body of the loop up to the answer: the cutoff typed in and converted,
  the count printed, the answer typed in.
\<close>

definition prompt_round ::
  "('w, 'q) collaborators \<Rightarrow> string option \<Rightarrow> (string \<times> pyfloat) list \<Rightarrow> ('w, 'q) state
     \<Rightarrow> (error + pyfloat \<times> string) \<times> ('w, 'q) state" where
  "prompt_round env tid df s =
     (case input env (cutoff_prompt tid) s of
        (Inl e, s1) \<Rightarrow> (Inl e, s1)
      | (Inr a, s1) \<Rightarrow>
          (case py_float env a of
             None \<Rightarrow> (Inl ValueError, s1)
           | Some cutoff \<Rightarrow>
               (case input env confirm_prompt
                       (log (Print_Chosen cutoff (ntemplates df cutoff)) s1) of
                  (Inl e, s2) \<Rightarrow> (Inl e, s2)
                | (Inr answer, s2) \<Rightarrow> (Inr (cutoff, answer), s2))))"

text \<open>
  Lines 122-129: the loop runs until an answer is affirmative; it may never be. \<open>None\<close> is
  the run that does not return.
\<close>

partial_function (option) choose_seqid_cutoff ::
  "('w, 'q) collaborators \<Rightarrow> string option \<Rightarrow> (string \<times> pyfloat) list \<Rightarrow> ('w, 'q) state
     \<Rightarrow> ((error + pyfloat) \<times> ('w, 'q) state) option" where
  "choose_seqid_cutoff env tid df s =
     (case prompt_round env tid df s of
        (Inl e, s') \<Rightarrow> Some (Inl e, s')
      | (Inr (cutoff, answer), s') \<Rightarrow>
          if affirmative answer then Some (Inr cutoff, s')
          else choose_seqid_cutoff env tid df s')"

declare choose_seqid_cutoff.simps [code]

definition seqid_filepath :: "('w, 'q) collaborators \<Rightarrow> string \<Rightarrow> string" where
  "seqid_filepath env t = path_join (path_join (models_dirname env) t) ''sequence-identities.txt''"

definition select_templates_based_on_seqid_cutoff ::
  "('w, 'q) collaborators \<Rightarrow> string option \<Rightarrow> pyfloat option \<Rightarrow> ('w, 'q) state
     \<Rightarrow> ((error + string list) \<times> ('w, 'q) state) option" where
  "select_templates_based_on_seqid_cutoff env tid seqid_cutoff s =
     (case tid of
        None \<Rightarrow> Some (Inl AttributeError, s)
      | Some t \<Rightarrow>
          (case readlines env (seqid_filepath env t) (world s) of
             Inl x \<Rightarrow> Some (Inl (Raised x), log (Open_Readlines (seqid_filepath env t)) s)
           | Inr lines \<Rightarrow>
               (case read_seqids (py_float env) lines of
                  Inl e \<Rightarrow> Some (Inl e, log (Open_Readlines (seqid_filepath env t)) s)
                | Inr df \<Rightarrow>
                    (case seqid_cutoff of
                       Some cutoff \<Rightarrow>
                         Some (Inr (selected_templateids df cutoff),
                               log (Open_Readlines (seqid_filepath env t)) s)
                     | None \<Rightarrow>
                         (case choose_seqid_cutoff env tid df
                                 (print_histogram df (log (Open_Readlines (seqid_filepath env t)) s)) of
                            None \<Rightarrow> None
                          | Some (Inl e, s') \<Rightarrow> Some (Inl e, s')
                          | Some (Inr cutoff, s') \<Rightarrow> Some (Inr (selected_templateids df cutoff), s'))))))"

section \<open>\<^verbatim>\<open>_align_all_templates\<close> (lines 97-98) and \<^verbatim>\<open>_model\<close> (lines 136-149)\<close>

definition align_all_templates ::
  "('w, 'q) collaborators \<Rightarrow> string option \<Rightarrow> ('w, 'q) state \<Rightarrow> (error + unit) \<times> ('w, 'q) state" where
  "align_all_templates env tid s = invoke env (Align_Targets_And_Templates tid None) s"

text \<open>The next statement runs when the statements before it raised nothing.\<close>

definition and_then ::
  "(error + unit) \<times> ('w, 'q) state \<Rightarrow> (('w, 'q) state \<Rightarrow> (error + unit) \<times> ('w, 'q) state)
     \<Rightarrow> (error + unit) \<times> ('w, 'q) state" where
  "and_then r f = (case r of (Inl e, s) \<Rightarrow> (Inl e, s) | (Inr _, s) \<Rightarrow> f s)"

text \<open>Lines 147-148: \<^verbatim>\<open>if not nfahclones: nfahclones = 1\<close>.\<close>

definition nclones :: "int option \<Rightarrow> int" where
  "nclones n = (case n of None \<Rightarrow> 1 | Some k \<Rightarrow> if k \<noteq> 0 then k else 1)"

definition model ::
  "('w, 'q) collaborators \<Rightarrow> 'q QuickModel \<Rightarrow> string option \<Rightarrow> string list option \<Rightarrow> bool \<Rightarrow> bool
     \<Rightarrow> int option \<Rightarrow> ('w, 'q) state \<Rightarrow> (error + unit) \<times> ('w, 'q) state" where
  "model env self tid tids loopmodel_arg package_arg nfahclones_arg s =
     (let r1 = (if loopmodel_arg then invoke env (Model_Template_Loops tids) s else (Inr (), s));
          r2 = and_then r1 (invoke env (Align_Targets_And_Templates tid tids));
          r3 = and_then r2 (invoke env (Build_Models tid tids));
          r4 = and_then r3 (invoke env (Cluster_Models tid));
          r5 = and_then r4 (invoke env (Refine_Implicit_Md tid tids (sim_length self)));
          r6 = and_then r5 (invoke env (Solvate_Models tid tids));
          r7 = and_then r6 (invoke env (Determine_Nwaters tid tids));
          r8 = and_then r7 (invoke env (Refine_Explicit_Md tid tids (sim_length self)))
      in if package_arg
         then and_then r8 (invoke env (Package_For_Fah tid (nclones nfahclones_arg)))
         else r8)"

section \<open>\<^verbatim>\<open>QuickModel.__init__\<close> (lines 50-95)\<close>

text \<open>Lines 50-51.\<close>

definition ensure_project ::
  "('w, 'q) collaborators \<Rightarrow> ('w, 'q) state \<Rightarrow> (error + unit) \<times> ('w, 'q) state" where
  "ensure_project env s =
     (if \<not> check_project_toplevel_dir env (world s) then invoke env (Init_Project ''.'') s
      else (Inr (), s))"

text \<open>Lines 53-54.\<close>

definition target_error :: string where
  "target_error = ''Must specify either targetid or target_uniprot_entry_name.''"

definition check_target_args :: "'q QuickModel \<Rightarrow> error + unit" where
  "check_target_args self =
     (if (\<not> truthy (targetid self) \<and> \<not> truthy (target_uniprot_entry_name self))
         \<or> (truthy (targetid self) \<and> truthy (target_uniprot_entry_name self))
      then Inl (Exception target_error)
      else Inr ())"

text \<open>Lines 56-66.\<close>

definition discovery_error :: string where
  "discovery_error =
     ''If no targetid is passed, must specify target_uniprot_entry_name and uniprot_domain_regex.''"

definition uniprot_query_string :: "'q QuickModel \<Rightarrow> string" where
  "uniprot_query_string self = ''mnemonic:'' @ str_of (target_uniprot_entry_name self)"

definition resolve_target ::
  "('w, 'q) collaborators \<Rightarrow> 'q QuickModel \<Rightarrow> ('w, 'q) state
     \<Rightarrow> (error + 'q QuickModel) \<times> ('w, 'q) state" where
  "resolve_target env self s =
     (if \<not> truthy (targetid self) then
        (if \<not> truthy (target_uniprot_entry_name self) \<or> \<not> truthy (uniprot_domain_regex self)
         then (Inl (Exception discovery_error), s)
         else
           (case GatherTargetsFromUniProt env (uniprot_query_string self)
                   (uniprot_domain_regex self) (world s) of
              Inl x \<Rightarrow>
                (Inl (Raised x),
                 log (Gather_Targets_From_UniProt (uniprot_query_string self)
                        (uniprot_domain_regex self)) s)
            | Inr (targets, w) \<Rightarrow>
                (case targets of
                   [] \<Rightarrow>
                     (Inl IndexError,
                      log (Gather_Targets_From_UniProt (uniprot_query_string self)
                             (uniprot_domain_regex self)) (s\<lparr>world := w\<rparr>))
                 | t # _ \<Rightarrow>
                     (Inr (self\<lparr>targetid := Some t\<rparr>),
                      log (Gather_Targets_From_UniProt (uniprot_query_string self)
                             (uniprot_domain_regex self)) (s\<lparr>world := w\<rparr>)))))
      else (Inr self, s))"

text \<open>Lines 68-72.\<close>

definition templates_resolved_seq_path :: "('w, 'q) collaborators \<Rightarrow> string" where
  "templates_resolved_seq_path env = path_join (templates_dirname env) ''templates-resolved-seq.fa''"

definition find_existing_templates ::
  "('w, 'q) collaborators \<Rightarrow> ('w, 'q) state \<Rightarrow> (error + bool) \<times> ('w, 'q) state" where
  "find_existing_templates env s =
     (if path_exists env (templates_resolved_seq_path env) (world s) then
        (case get_templates_resolved_seq env (world s) of
           Inl x \<Rightarrow> (Inl (Raised x), log Get_Templates_Resolved_Seq s)
         | Inr all_templates \<Rightarrow> (Inr (0 < length all_templates), log Get_Templates_Resolved_Seq s))
      else (Inr False, s))"

text \<open>Lines 50-72 together: the object with its target resolved, and \<^verbatim>\<open>existing_templates\<close>.\<close>

definition prepare ::
  "('w, 'q) collaborators \<Rightarrow> 'q QuickModel \<Rightarrow> ('w, 'q) state
     \<Rightarrow> (error + 'q QuickModel \<times> bool) \<times> ('w, 'q) state" where
  "prepare env self s =
     (case ensure_project env s of
        (Inl e, s1) \<Rightarrow> (Inl e, s1)
      | (Inr _, s1) \<Rightarrow>
          (case check_target_args self of
             Inl e \<Rightarrow> (Inl e, s1)
           | Inr _ \<Rightarrow>
               (case resolve_target env self s1 of
                  (Inl e, s2) \<Rightarrow> (Inl e, s2)
                | (Inr self1, s2) \<Rightarrow>
                    (case find_existing_templates env s2 of
                       (Inl e, s3) \<Rightarrow> (Inl e, s3)
                     | (Inr existing_templates, s3) \<Rightarrow> (Inr (self1, existing_templates), s3)))))"

text \<open>Lines 83-84 and 88-89, which are the same two statements.\<close>

definition align_and_select ::
  "('w, 'q) collaborators \<Rightarrow> 'q QuickModel \<Rightarrow> ('w, 'q) state
     \<Rightarrow> ((error + 'q QuickModel) \<times> ('w, 'q) state) option" where
  "align_and_select env self s =
     (case align_all_templates env (targetid self) s of
        (Inl e, s1) \<Rightarrow> Some (Inl e, s1)
      | (Inr _, s1) \<Rightarrow>
          (case select_templates_based_on_seqid_cutoff env (targetid self)
                  (model_seqid_cutoff self) s1 of
             None \<Rightarrow> None
           | Some (Inl e, s2) \<Rightarrow> Some (Inl e, s2)
           | Some (Inr tids, s2) \<Rightarrow> Some (Inr (self\<lparr>templateids := Some tids\<rparr>), s2)))"

definition templates_error :: string where
  "templates_error = ''No existing templates found.''"

text \<open>Lines 75-76.\<close>

definition use_given_templateids ::
  "('w, 'q) collaborators \<Rightarrow> 'q QuickModel \<Rightarrow> bool \<Rightarrow> ('w, 'q) state
     \<Rightarrow> ((error + 'q QuickModel) \<times> ('w, 'q) state) option" where
  "use_given_templateids env self existing_templates s =
     (if \<not> existing_templates then Some (Inl (Exception templates_error), s)
      else Some (Inr self, s))"

text \<open>Lines 78-80.\<close>

definition templates_from_pdb ::
  "('w, 'q) collaborators \<Rightarrow> 'q QuickModel \<Rightarrow> bool \<Rightarrow> ('w, 'q) state
     \<Rightarrow> ((error + 'q QuickModel) \<times> ('w, 'q) state) option" where
  "templates_from_pdb env self existing_templates s =
     (case invoke env
             (Gather_Templates_From_Pdb (pdbids self) (uniprot_domain_regex self)
                (chainids self) (structure_dirs self)) s of
        (Inl e, s1) \<Rightarrow> Some (Inl e, s1)
      | (Inr _, s1) \<Rightarrow>
          (case get_templates_resolved_seq env (world s1) of
             Inl x \<Rightarrow> Some (Inl (Raised x), log Get_Templates_Resolved_Seq s1)
           | Inr templates_resolved_seq \<Rightarrow>
               Some (Inr (self\<lparr>templateids := Some templates_resolved_seq\<rparr>),
                     log Get_Templates_Resolved_Seq s1)))"

text \<open>Lines 82-84.\<close>

definition templates_from_uniprot_query ::
  "('w, 'q) collaborators \<Rightarrow> 'q QuickModel \<Rightarrow> bool \<Rightarrow> ('w, 'q) state
     \<Rightarrow> ((error + 'q QuickModel) \<times> ('w, 'q) state) option" where
  "templates_from_uniprot_query env self existing_templates s =
     (case invoke env
             (Gather_Templates_From_Uniprot (template_uniprot_query self)
                (uniprot_domain_regex self) (structure_dirs self)) s of
        (Inl e, s1) \<Rightarrow> Some (Inl e, s1)
      | (Inr _, s1) \<Rightarrow> align_and_select env self s1)"

text \<open>Lines 86-89.\<close>

definition templates_from_existing ::
  "('w, 'q) collaborators \<Rightarrow> 'q QuickModel \<Rightarrow> bool \<Rightarrow> ('w, 'q) state
     \<Rightarrow> ((error + 'q QuickModel) \<times> ('w, 'q) state) option" where
  "templates_from_existing env self existing_templates s =
     (if \<not> existing_templates then Some (Inl (Exception templates_error), s)
      else align_and_select env self s)"

text \<open>Lines 74, 77, 81 and 85: the \<^verbatim>\<open>if\<close>/\<^verbatim>\<open>elif\<close>/\<^verbatim>\<open>else\<close> chain.\<close>

definition resolve_templates ::
  "('w, 'q) collaborators \<Rightarrow> 'q QuickModel \<Rightarrow> bool \<Rightarrow> ('w, 'q) state
     \<Rightarrow> ((error + 'q QuickModel) \<times> ('w, 'q) state) option" where
  "resolve_templates env self existing_templates s =
     (if truthy (templateids self) then use_given_templateids env self existing_templates s
      else if truthy (pdbids self) then templates_from_pdb env self existing_templates s
      else if truthy (template_uniprot_query self)
        then templates_from_uniprot_query env self existing_templates s
      else templates_from_existing env self existing_templates s)"

text \<open>Lines 91-95.\<close>

definition no_templates_warning :: string where
  "no_templates_warning = ''No templates found. Exiting.''"

definition finish ::
  "('w, 'q) collaborators \<Rightarrow> 'q QuickModel \<Rightarrow> ('w, 'q) state
     \<Rightarrow> (error + 'q QuickModel) \<times> ('w, 'q) state" where
  "finish env self s =
     (if \<not> truthy (templateids self)
         \<or> (case templateids self of None \<Rightarrow> False | Some l \<Rightarrow> length l = 0)
      then (Inr self, log (Warn no_templates_warning) s)
      else
        (case model env self (targetid self) (templateids self) (loopmodel self)
                (package_for_fah self) (nfahclones self) s of
           (Inl e, s') \<Rightarrow> (Inl e, s')
         | (Inr _, s') \<Rightarrow> (Inr self, s')))"

text \<open>
  The constructor: the object it leaves and the calls it made, an exception and the calls
  made before it, or \<open>None\<close> when the interactive loop never ends.
\<close>

definition QuickModel_init ::
  "('w, 'q) collaborators \<Rightarrow> 'q QuickModel \<Rightarrow> ('w, 'q) state
     \<Rightarrow> ((error + 'q QuickModel) \<times> ('w, 'q) state) option" where
  "QuickModel_init env self s =
     (case prepare env self s of
        (Inl e, s1) \<Rightarrow> Some (Inl e, s1)
      | (Inr (self1, existing_templates), s1) \<Rightarrow>
          (case resolve_templates env self1 existing_templates s1 of
             None \<Rightarrow> None
           | Some (Inl e, s2) \<Rightarrow> Some (Inl e, s2)
           | Some (Inr self2, s2) \<Rightarrow> Some (finish env self2 s2)))"

section \<open>Notions used to state the properties\<close>

text \<open>The calls made between two states of one run.\<close>

definition calls_since :: "('w, 'q) state \<Rightarrow> ('w, 'q) state \<Rightarrow> 'q call list" where
  "calls_since s s' = drop (length (trace s)) (trace s')"

text \<open>Call after call; an exception of a call ends the sequence there.\<close>

fun invoke_all ::
  "('w, 'q) collaborators \<Rightarrow> 'q call list \<Rightarrow> ('w, 'q) state \<Rightarrow> (error + unit) \<times> ('w, 'q) state" where
  "invoke_all env [] s = (Inr (), s)"
| "invoke_all env (c # cs) s = and_then (invoke env c s) (invoke_all env cs)"

text \<open>
  The calls of the modeling and refinement sequence (lines 138-149). The alignment of line 139
  names the templates; the one of line 98 does not.
\<close>

fun modeling_call :: "'q call \<Rightarrow> bool" where
  "modeling_call (Model_Template_Loops _) = True"
| "modeling_call (Align_Targets_And_Templates _ (Some _)) = True"
| "modeling_call (Build_Models _ _) = True"
| "modeling_call (Cluster_Models _) = True"
| "modeling_call (Refine_Implicit_Md _ _ _) = True"
| "modeling_call (Solvate_Models _ _) = True"
| "modeling_call (Determine_Nwaters _ _) = True"
| "modeling_call (Refine_Explicit_Md _ _ _) = True"
| "modeling_call (Package_For_Fah _ _) = True"
| "modeling_call _ = False"

fun packaging_call :: "'q call \<Rightarrow> bool" where
  "packaging_call (Package_For_Fah _ _) = True"
| "packaging_call _ = False"

text \<open>From \<open>s\<close> to \<open>s'\<close> the log only grew, and by no call of the modeling sequence.\<close>

definition no_modeling_between :: "('w, 'q) state \<Rightarrow> ('w, 'q) state \<Rightarrow> bool" where
  "no_modeling_between s s' =
     (trace s' = trace s @ calls_since s s' \<and> list_all (\<lambda>c. \<not> modeling_call c) (calls_since s s'))"

text \<open>
  The calls of lines 83-84 (and 88-89): the alignment of all templates, the reading of the
  report, the printing and the prompting. Gathering templates is none of them.
\<close>

fun selection_call :: "'q call \<Rightarrow> bool" where
  "selection_call (Align_Targets_And_Templates _ None) = True"
| "selection_call (Open_Readlines _) = True"
| "selection_call (Print_Ntemplates _ _) = True"
| "selection_call (Print_Chosen _ _) = True"
| "selection_call (Raw_Input _) = True"
| "selection_call _ = False"

definition only_selection_between :: "('w, 'q) state \<Rightarrow> ('w, 'q) state \<Rightarrow> bool" where
  "only_selection_between s s' =
     (trace s' = trace s @ calls_since s s' \<and> list_all selection_call (calls_since s s'))"

text \<open>The exceptions this module raises itself, with a message, on its arguments.\<close>

fun configuration_error :: "error \<Rightarrow> bool" where
  "configuration_error (Exception _) = True"
| "configuration_error _ = False"

text \<open>
  The state after \<open>n\<close> rounds of the loop in a row that each end with an answer that is not
  affirmative; \<open>None\<close> when one of them raises or is affirmative.
\<close>

fun declined_rounds ::
  "('w, 'q) collaborators \<Rightarrow> string option \<Rightarrow> (string \<times> pyfloat) list \<Rightarrow> nat \<Rightarrow> ('w, 'q) state
     \<Rightarrow> ('w, 'q) state option" where
  "declined_rounds env tid df 0 s = Some s"
| "declined_rounds env tid df (Suc n) s =
     (case prompt_round env tid df s of
        (Inl e, s') \<Rightarrow> None
      | (Inr (cutoff, answer), s') \<Rightarrow>
          if affirmative answer then None else declined_rounds env tid df n s')"

text \<open>The calls of one round in which \<open>cutoff\<close> is entered.\<close>

definition round_calls :: "string option \<Rightarrow> (string \<times> pyfloat) list \<Rightarrow> pyfloat \<Rightarrow> 'q call list" where
  "round_calls tid df cutoff =
     [Raw_Input (cutoff_prompt tid), Print_Chosen cutoff (ntemplates df cutoff),
      Raw_Input confirm_prompt]"

text \<open>
  The sequence of the specification, steps (a) to (i), to compare with lines 137-149.
\<close>

definition modeling_sequence ::
  "'q \<Rightarrow> string option \<Rightarrow> string list option \<Rightarrow> bool \<Rightarrow> bool \<Rightarrow> int option \<Rightarrow> 'q call list" where
  "modeling_sequence duration tid tids loop_modeling packaging clones =
     (if loop_modeling then [Model_Template_Loops tids] else []) @
     [Align_Targets_And_Templates tid tids,
      Build_Models tid tids,
      Cluster_Models tid,
      Refine_Implicit_Md tid tids duration,
      Solvate_Models tid tids,
      Determine_Nwaters tid tids,
      Refine_Explicit_Md tid tids duration] @
     (if packaging
      then [Package_For_Fah tid (case clones of None \<Rightarrow> 1 | Some k \<Rightarrow> if k = 0 then 1 else k)]
      else [])"

text \<open>
  The four ways to the template identifiers as the specification lists them, in its order of
  priority, to compare with the chain of lines 74-89.
\<close>

datatype path = Explicit_Ids | Structure_Source | Discovery_Query | Fallback

definition spec_path :: "'q QuickModel \<Rightarrow> path" where
  "spec_path self =
     (if truthy (templateids self) then Explicit_Ids
      else if truthy (pdbids self) then Structure_Source
      else if truthy (template_uniprot_query self) then Discovery_Query
      else Fallback)"

fun follow_path ::
  "path \<Rightarrow> ('w, 'q) collaborators \<Rightarrow> 'q QuickModel \<Rightarrow> bool \<Rightarrow> ('w, 'q) state
     \<Rightarrow> ((error + 'q QuickModel) \<times> ('w, 'q) state) option" where
  "follow_path Explicit_Ids = use_given_templateids"
| "follow_path Structure_Source = templates_from_pdb"
| "follow_path Discovery_Query = templates_from_uniprot_query"
| "follow_path Fallback = templates_from_existing"

section \<open>A small project to run the constructor on\<close>

text \<open>
  The world is the list of lines still to be typed at the console. The sequence-identity
  report of target \<open>EGFR_HUMAN_D0\<close> holds three templates; every other call succeeds.
\<close>

definition example_float :: "string \<Rightarrow> pyfloat option" where
  "example_float v =
     (if v = ''95.0'' then Some (Finite 95)
      else if v = ''40.0'' then Some (Finite 40)
      else if v = ''10.0'' then Some (Finite 10)
      else if v = ''50'' then Some (Finite 50)
      else if v = ''30'' then Some (Finite 30)
      else None)"

definition example_lines :: "string list" where
  "example_lines =
     [''T1 95.0'' @ [CHR 0x0A], ''T2 40.0'' @ [CHR 0x0A], ''T3 10.0'' @ [CHR 0x0A]]"

definition example_env :: "(string list, nat) collaborators" where
  "example_env =
     \<lparr>templates_dirname = ''templates'',
      models_dirname = ''models'',
      check_project_toplevel_dir = (\<lambda>w. True),
      path_exists = (\<lambda>p w. True),
      GatherTargetsFromUniProt = (\<lambda>q r w. Inr ([''EGFR_HUMAN_D0'', ''EGFR_HUMAN_D1''], w)),
      get_templates_resolved_seq = (\<lambda>w. Inr [''T1'', ''T2'', ''T3'']),
      readlines = (\<lambda>p w. if p = ''models/EGFR_HUMAN_D0/sequence-identities.txt''
                      then Inr example_lines else Inl ''IOError''),
      raw_input = (\<lambda>p w. case w of [] \<Rightarrow> Inl ''EOFError'' | a # rest \<Rightarrow> Inr (a, rest)),
      py_float = example_float,
      perform = (\<lambda>c w. Inr w)\<rparr>"

definition example_self :: "nat QuickModel" where
  "example_self =
     \<lparr>targetid = Some ''EGFR_HUMAN_D0'', templateids = None, target_uniprot_entry_name = None,
      uniprot_domain_regex = None, pdbids = None, chainids = None,
      template_uniprot_query = None, model_seqid_cutoff = None, loopmodel = True,
      package_for_fah = False, nfahclones = None, structure_dirs = None, sim_length = 100\<rparr>"

definition start :: "string list \<Rightarrow> (string list, nat) state" where
  "start console = \<lparr>world = console, trace = []\<rparr>"

text \<open>
  The same object with a threshold, the two flags and a clone count chosen; the report as rows;
  the states of such a run after lines 50-72 and after lines 74-89.
\<close>

definition example_with :: "pyfloat option \<Rightarrow> bool \<Rightarrow> bool \<Rightarrow> int option \<Rightarrow> nat QuickModel" where
  "example_with cutoff loops packaging clones =
     example_self\<lparr>model_seqid_cutoff := cutoff, loopmodel := loops,
       package_for_fah := packaging, nfahclones := clones\<rparr>"

definition example_rows :: "(string \<times> pyfloat) list" where
  "example_rows = [(''T1'', Finite 95), (''T2'', Finite 40), (''T3'', Finite 10)]"

definition example_prepared :: "(string list, nat) state" where
  "example_prepared = \<lparr>world = [], trace = [Get_Templates_Resolved_Seq]\<rparr>"

definition example_resolved :: "(string list, nat) state" where
  "example_resolved =
     \<lparr>world = [],
      trace = [Get_Templates_Resolved_Seq,
               Align_Targets_And_Templates (Some ''EGFR_HUMAN_D0'') None,
               Open_Readlines ''models/EGFR_HUMAN_D0/sequence-identities.txt'']\<rparr>"

section \<open>Calls and their log\<close>

lemma trace_log [simp]: "trace (log c s) = trace s @ [c]"
  by (simp add: log_def)

lemma world_log [simp]: "world (log c s) = world s"
  by (simp add: log_def)

lemma invoke_trace: "invoke env c s = (r, s') \<Longrightarrow> trace s' = trace s @ [c]"
  by (auto simp: invoke_def split: sum.splits)

lemma input_trace: "input env p s = (r, s') \<Longrightarrow> trace s' = trace s @ [Raw_Input p]"
  by (auto simp: input_def split: sum.splits prod.splits)

lemma invoke_all_trace:
  "invoke_all env cs s = (r, s') \<Longrightarrow>
     (\<exists>k. trace s' = trace s @ take k cs) \<and> (r = Inr () \<longrightarrow> trace s' = trace s @ cs)"
proof (induction cs arbitrary: s)
  case Nil
  then show ?case by simp
next
  case (Cons c cs)
  obtain r1 s1 where inv: "invoke env c s = (r1, s1)"
    by (cases "invoke env c s")
  have t1: "trace s1 = trace s @ [c]"
    using inv by (rule invoke_trace)
  show ?case
  proof (cases r1)
    case (Inl e)
    with Cons.prems inv have "r = Inl e" "s' = s1"
      by (simp_all add: and_then_def)
    with t1 have "trace s' = trace s @ take 1 (c # cs)" by simp
    with \<open>r = Inl e\<close> show ?thesis by blast
  next
    case (Inr u)
    with Cons.prems inv have rest: "invoke_all env cs s1 = (r, s')"
      by (simp add: and_then_def)
    from Cons.IH [OF rest] obtain k where
      k: "trace s' = trace s1 @ take k cs" and full: "r = Inr () \<longrightarrow> trace s' = trace s1 @ cs"
      by blast
    from k t1 have "trace s' = trace s @ take (Suc k) (c # cs)" by simp
    moreover from full t1 have "r = Inr () \<longrightarrow> trace s' = trace s @ c # cs" by simp
    ultimately show ?thesis by blast
  qed
qed

lemma nclones_spec: "nclones n = (case n of None \<Rightarrow> 1 | Some k \<Rightarrow> if k = 0 then 1 else k)"
  by (simp add: nclones_def split: option.splits)

lemma and_then_Inl [simp]: "and_then (Inl e, s) f = (Inl e, s)"
  by (simp add: and_then_def)

lemma and_then_Inr [simp]: "and_then (Inr u, s) f = f s"
  by (simp add: and_then_def)

lemma and_then_assoc: "and_then (and_then r f) g = and_then r (\<lambda>s. and_then (f s) g)"
  by (cases r) (auto simp: and_then_def split: sum.splits)

lemma invoke_all_append:
  "invoke_all env (cs @ ds) s = and_then (invoke_all env cs s) (invoke_all env ds)"
proof (induction cs arbitrary: s)
  case Nil
  show ?case by simp
next
  case (Cons c cs)
  show ?case
    by (cases "invoke env c s" rule: prod.exhaust; cases "fst (invoke env c s)")
       (simp_all add: Cons.IH)
qed

lemma invoke_all_Cons_fun:
  "invoke_all env (c # cs) = (\<lambda>s. and_then (invoke env c s) (invoke_all env cs))"
  by (rule ext) simp

lemma invoke_all_Nil_fun: "invoke_all env [] = (\<lambda>s. (Inr (), s))"
  by (rule ext) simp

lemma and_then_return: "and_then r (\<lambda>s. (Inr (), s)) = r"
  by (cases r) (auto simp: and_then_def split: sum.splits)

lemma model_invoke_all:
  "model env self tid tids lm pk n s =
     invoke_all env (modeling_sequence (sim_length self) tid tids lm pk n) s"
  unfolding model_def modeling_sequence_def Let_def nclones_spec [symmetric]
  by (simp add: invoke_all_append and_then_assoc invoke_all_Cons_fun invoke_all_Nil_fun
        and_then_return)

lemma model_trace:
  assumes "model env self tid tids lm pk n s = (r, s')"
  shows "(\<exists>k. trace s' = trace s @ take k (modeling_sequence (sim_length self) tid tids lm pk n))
         \<and> (r = Inr () \<longrightarrow> trace s' = trace s @ modeling_sequence (sim_length self) tid tids lm pk n)"
  using assms unfolding model_invoke_all by (rule invoke_all_trace)


section \<open>Selection by sequence identity\<close>

lemma first_column_rows:
  "first_column xs = Inr ts \<Longrightarrow>
     length ts = length xs \<and> (\<forall>i<length xs. \<exists>rest. xs ! i = ts ! i # rest)"
proof (induction xs arbitrary: ts)
  case Nil
  then show ?case by simp
next
  case (Cons x xs)
  from Cons.prems obtain t rest ts' where
    x: "x = t # rest" and ts': "first_column xs = Inr ts'" and ts: "ts = t # ts'"
    by (auto split: list.splits sum.splits)
  from Cons.IH [OF ts'] have
    len: "length ts' = length xs" and nth: "\<forall>i<length xs. \<exists>rest. xs ! i = ts' ! i # rest"
    by simp_all
  show ?case
  proof (intro conjI allI impI)
    show "length ts = length (x # xs)" using len ts by simp
  next
    fix i assume "i < length (x # xs)"
    then show "\<exists>rest. (x # xs) ! i = ts ! i # rest"
      using x ts nth by (cases i) simp_all
  qed
qed

lemma second_column_rows:
  "second_column flt xs = Inr vs \<Longrightarrow>
     length vs = length xs \<and>
     (\<forall>i<length xs. \<exists>t v rest. xs ! i = t # v # rest \<and> flt v = Some (vs ! i))"
proof (induction xs arbitrary: vs)
  case Nil
  then show ?case by simp
next
  case (Cons x xs)
  from Cons.prems obtain t v rest y vs' where
    x: "x = t # v # rest" and y: "flt v = Some y"
    and vs': "second_column flt xs = Inr vs'" and vs: "vs = y # vs'"
    by (auto split: list.splits sum.splits option.splits)
  from Cons.IH [OF vs'] have
    len: "length vs' = length xs"
    and nth: "\<forall>i<length xs. \<exists>t v rest. xs ! i = t # v # rest \<and> flt v = Some (vs' ! i)"
    by simp_all
  show ?case
  proof (intro conjI allI impI)
    show "length vs = length (x # xs)" using len vs by simp
  next
    fix i assume "i < length (x # xs)"
    then show "\<exists>t v rest. (x # xs) ! i = t # v # rest \<and> flt v = Some (vs ! i)"
      using x y vs nth by (cases i) simp_all
  qed
qed

lemma read_seqids_rows:
  assumes "read_seqids flt lines = Inr df"
  shows "length df = length lines"
    and "i < length lines \<Longrightarrow>
           \<exists>v rest. py_split (lines ! i) = fst (df ! i) # v # rest \<and> flt v = Some (snd (df ! i))"
proof -
  from assms obtain ts vs where
    ts: "first_column (map py_split lines) = Inr ts"
    and vs: "second_column flt (map py_split lines) = Inr vs"
    and df: "df = zip ts vs"
    by (auto simp: read_seqids_def Let_def split: sum.splits)
  from first_column_rows [OF ts] second_column_rows [OF vs]
  have lens: "length ts = length lines" "length vs = length lines"
    and fst: "\<forall>i<length lines. \<exists>rest. py_split (lines ! i) = ts ! i # rest"
    and snd: "\<forall>i<length lines. \<exists>t v rest. py_split (lines ! i) = t # v # rest \<and> flt v = Some (vs ! i)"
    by simp_all
  show "length df = length lines" using df lens by simp
  show "\<exists>v rest. py_split (lines ! i) = fst (df ! i) # v # rest \<and> flt v = Some (snd (df ! i))"
    if "i < length lines"
  proof -
    from snd that obtain t v rest where
      row: "py_split (lines ! i) = t # v # rest" and v: "flt v = Some (vs ! i)" by blast
    from fst that row have "t = ts ! i" by auto
    with row v df lens that show ?thesis by simp
  qed
qed

lemma float_gt_irrefl: "\<not> float_gt x x"
  by (cases x) simp_all

text \<open>
  Claim C2. With a numeric threshold, the selection reads the report and returns the
  identifiers of the rows whose identity is strictly above the threshold, in the order of the
  rows, and asks nothing: the only call is the reading of the file. A row whose identity
  equals the threshold is not kept, and on finite values the comparison is the strict order
  of the numbers. The rows \<open>df\<close> are the first two columns of the lines (\<open>read_seqids_rows\<close>). For
  the report (T1, 95.0), (T2, 40.0), (T3, 10.0) and threshold 50 the result is [T1].
\<close>

theorem select_templates_with_cutoff:
  assumes "readlines env (seqid_filepath env t) (world s) = Inr lines"
    and "read_seqids (py_float env) lines = Inr df"
  shows "select_templates_based_on_seqid_cutoff env (Some t) (Some cutoff) s =
           Some (Inr (map fst (filter (\<lambda>row. float_gt (snd row) cutoff) df)),
                 log (Open_Readlines (seqid_filepath env t)) s)
         \<and> \<not> float_gt cutoff cutoff
         \<and> float_gt (Finite a) (Finite b) = (b < a)"
  using assms
  by (simp add: select_templates_based_on_seqid_cutoff_def selected_templateids_def
        rows_above_def float_gt_irrefl)

theorem select_templates_with_cutoff_witness:
  "readlines example_env (seqid_filepath example_env ''EGFR_HUMAN_D0'') (world (start []))
     = Inr example_lines
   \<and> read_seqids (py_float example_env) example_lines
     = Inr [(''T1'', Finite 95), (''T2'', Finite 40), (''T3'', Finite 10)]
   \<and> select_templates_based_on_seqid_cutoff example_env (Some ''EGFR_HUMAN_D0'')
       (Some (Finite 50)) (start [])
     = Some (Inr [''T1''],
             log (Open_Readlines ''models/EGFR_HUMAN_D0/sequence-identities.txt'') (start []))"
proof -
  have fl: "readlines example_env (seqid_filepath example_env ''EGFR_HUMAN_D0'') (world (start []))
      = Inr example_lines"
    by (simp add: example_env_def seqid_filepath_def path_join_def)
  have rows: "read_seqids (py_float example_env) example_lines
      = Inr [(''T1'', Finite 95), (''T2'', Finite 40), (''T3'', Finite 10)]"
    by (simp add: read_seqids_def example_lines_def py_split_def isspace_def example_env_def
          example_float_def)
  have path: "seqid_filepath example_env ''EGFR_HUMAN_D0''
      = ''models/EGFR_HUMAN_D0/sequence-identities.txt''"
    by (simp add: example_env_def seqid_filepath_def path_join_def)
  from select_templates_with_cutoff [OF fl rows, of "Finite 50"] fl rows path
  show ?thesis by simp
qed

section \<open>The log during template resolution\<close>

lemma calls_since_append: "trace s' = trace s @ evs \<Longrightarrow> calls_since s s' = evs"
  by (simp add: calls_since_def)

lemma no_modeling_betweenI:
  "trace s' = trace s @ evs \<Longrightarrow> list_all (\<lambda>c. \<not> modeling_call c) evs \<Longrightarrow> no_modeling_between s s'"
  by (simp add: no_modeling_between_def calls_since_append)

lemma no_modeling_betweenD:
  "no_modeling_between s s' \<Longrightarrow>
     \<exists>evs. trace s' = trace s @ evs \<and> list_all (\<lambda>c. \<not> modeling_call c) evs"
  unfolding no_modeling_between_def by blast

lemma no_modeling_refl [simp]: "no_modeling_between s s"
  by (rule no_modeling_betweenI [of _ _ "[]"]) simp_all

lemma no_modeling_trans:
  assumes "no_modeling_between s s1" and "no_modeling_between s1 s2"
  shows "no_modeling_between s s2"
proof -
  from assms(1) obtain e1 where e1: "trace s1 = trace s @ e1" "list_all (\<lambda>c. \<not> modeling_call c) e1"
    by (blast dest: no_modeling_betweenD)
  from assms(2) obtain e2 where e2: "trace s2 = trace s1 @ e2" "list_all (\<lambda>c. \<not> modeling_call c) e2"
    by (blast dest: no_modeling_betweenD)
  show ?thesis
    by (rule no_modeling_betweenI [of _ _ "e1 @ e2"]) (simp_all add: e1 e2)
qed

lemma no_modeling_log: "\<not> modeling_call c \<Longrightarrow> no_modeling_between s (log c s)"
  by (rule no_modeling_betweenI [of _ _ "[c]"]) simp_all

lemma no_modeling_invoke:
  "invoke env c s = (r, s') \<Longrightarrow> \<not> modeling_call c \<Longrightarrow> no_modeling_between s s'"
  by (rule no_modeling_betweenI [of _ _ "[c]"]) (simp_all add: invoke_trace)

lemma no_modeling_input: "input env p s = (r, s') \<Longrightarrow> no_modeling_between s s'"
  by (rule no_modeling_betweenI [of _ _ "[Raw_Input p]"]) (simp_all add: input_trace)

lemma invoke_error: "invoke env c s = (Inl e, s') \<Longrightarrow> \<not> configuration_error e"
  by (auto simp: invoke_def split: sum.splits)

lemma input_error: "input env p s = (Inl e, s') \<Longrightarrow> \<not> configuration_error e"
  by (auto simp: input_def split: sum.splits prod.splits)

lemma prompt_round_trace:
  "prompt_round env tid df s = (Inr (cutoff, answer), s') \<Longrightarrow>
     trace s' = trace s @ round_calls tid df cutoff"
  by (auto simp: prompt_round_def round_calls_def split: prod.splits sum.splits option.splits
        dest!: input_trace)

lemma prompt_round_quiet:
  assumes "prompt_round env tid df s = (r, s')"
  shows "no_modeling_between s s'"
proof -
  obtain r1 s1 where i1: "input env (cutoff_prompt tid) s = (r1, s1)"
    by (cases "input env (cutoff_prompt tid) s")
  have q1: "no_modeling_between s s1" using i1 by (rule no_modeling_input)
  show ?thesis
  proof (cases r1)
    case (Inl e)
    with assms i1 have "s' = s1" by (simp add: prompt_round_def)
    with q1 show ?thesis by simp
  next
    case (Inr a)
    show ?thesis
    proof (cases "py_float env a")
      case None
      with assms i1 Inr have "s' = s1" by (simp add: prompt_round_def)
      with q1 show ?thesis by simp
    next
      case (Some cutoff)
      obtain r2 s2 where i2:
        "input env confirm_prompt (log (Print_Chosen cutoff (ntemplates df cutoff)) s1) = (r2, s2)"
        by (cases "input env confirm_prompt (log (Print_Chosen cutoff (ntemplates df cutoff)) s1)")
      from assms i1 Inr Some i2 have "s' = s2"
        by (auto simp: prompt_round_def split: sum.splits)
      moreover have "no_modeling_between s1 (log (Print_Chosen cutoff (ntemplates df cutoff)) s1)"
        by (rule no_modeling_log) simp
      moreover have "no_modeling_between (log (Print_Chosen cutoff (ntemplates df cutoff)) s1) s2"
        using i2 by (rule no_modeling_input)
      ultimately show ?thesis using q1 by (blast intro: no_modeling_trans)
    qed
  qed
qed

lemma prompt_round_error:
  "prompt_round env tid df s = (Inl e, s') \<Longrightarrow> \<not> configuration_error e"
  unfolding prompt_round_def
  by (auto split: prod.splits sum.splits option.splits dest: input_error)

lemma choose_seqid_cutoff_quiet:
  "choose_seqid_cutoff env tid df s = Some y \<Longrightarrow> no_modeling_between s (snd y)"
proof (induction rule: choose_seqid_cutoff.raw_induct [rotated 1, consumes 1])
  case (1 f env tid df s y)
  obtain r s1 where round: "prompt_round env tid df s = (r, s1)"
    by (cases "prompt_round env tid df s")
  have q1: "no_modeling_between s s1"
    using round by (rule prompt_round_quiet)
  show ?case
  proof (cases r)
    case (Inl e)
    with "1.hyps" round have "y = (Inl e, s1)" by simp
    with q1 show ?thesis by simp
  next
    case (Inr ca)
    obtain cutoff answer where ca: "ca = (cutoff, answer)" by (cases ca)
    show ?thesis
    proof (cases "affirmative answer")
      case True
      with "1.hyps" round Inr ca have "y = (Inr cutoff, s1)" by simp
      with q1 show ?thesis by simp
    next
      case False
      with "1.hyps" round Inr ca have "f env tid df s1 = Some y" by simp
      then have "no_modeling_between s1 (snd y)" by (rule "1.IH")
      with q1 show ?thesis by (rule no_modeling_trans)
    qed
  qed
qed

lemma choose_seqid_cutoff_error:
  "choose_seqid_cutoff env tid df s = Some y \<Longrightarrow> fst y = Inl e \<Longrightarrow> \<not> configuration_error e"
proof (induction rule: choose_seqid_cutoff.raw_induct [rotated 1, consumes 1])
  case (1 f env tid df s y)
  obtain r s1 where round: "prompt_round env tid df s = (r, s1)"
    by (cases "prompt_round env tid df s")
  show ?case
  proof (cases r)
    case (Inl e')
    with "1.hyps" round have "y = (Inl e', s1)" by simp
    with "1.prems" have "e' = e" by simp
    with round Inl have "prompt_round env tid df s = (Inl e, s1)" by simp
    then show ?thesis by (rule prompt_round_error)
  next
    case (Inr ca)
    obtain cutoff answer where ca: "ca = (cutoff, answer)" by (cases ca)
    show ?thesis
    proof (cases "affirmative answer")
      case True
      with "1.hyps" round Inr ca have "y = (Inr cutoff, s1)" by simp
      with "1.prems" show ?thesis by simp
    next
      case False
      with "1.hyps" round Inr ca have "f env tid df s1 = Some y" by simp
      then show ?thesis using "1.prems" by (rule "1.IH")
    qed
  qed
qed

lemma fold_log_trace: "trace (fold (\<lambda>k. log (g k)) ks s) = trace s @ map g ks"
  by (induction ks arbitrary: s) simp_all

lemma fold_log_world: "world (fold (\<lambda>k. log (g k)) ks s) = world s"
  by (induction ks arbitrary: s) simp_all

lemma print_histogram_trace:
  "trace (print_histogram df s) =
     trace s @ map (\<lambda>cutoff. Print_Ntemplates cutoff (ntemplates df (Finite (of_int cutoff))))
                 (range_step 0 101 10)"
  unfolding print_histogram_def by (rule fold_log_trace)

lemma print_histogram_world [simp]: "world (print_histogram df s) = world s"
  unfolding print_histogram_def by (rule fold_log_world)

lemma range_step_cutoffs: "range_step 0 101 10 = [0, 10, 20, 30, 40, 50, 60, 70, 80, 90, 100]"
  by (simp add: range_step.simps)

lemma print_histogram_quiet: "no_modeling_between s (print_histogram df s)"
  by (rule no_modeling_betweenI [OF print_histogram_trace]) (simp add: list_all_iff)

lemma select_templates_quiet:
  assumes "select_templates_based_on_seqid_cutoff env tid cutoff s = Some (r, s')"
  shows "no_modeling_between s s'"
proof (cases tid)
  case None
  with assms show ?thesis by (simp add: select_templates_based_on_seqid_cutoff_def)
next
  case (Some t)
  let ?s1 = "log (Open_Readlines (seqid_filepath env t)) s"
  have q1: "no_modeling_between s ?s1" by (rule no_modeling_log) simp
  show ?thesis
  proof (cases "readlines env (seqid_filepath env t) (world s)")
    case (Inl x)
    with assms Some have "s' = ?s1" by (simp add: select_templates_based_on_seqid_cutoff_def)
    with q1 show ?thesis by simp
  next
    case lines: (Inr lines)
    show ?thesis
    proof (cases "read_seqids (py_float env) lines")
      case (Inl e)
      with assms Some lines have "s' = ?s1"
        by (simp add: select_templates_based_on_seqid_cutoff_def)
      with q1 show ?thesis by simp
    next
      case df: (Inr df)
      show ?thesis
      proof (cases cutoff)
        case (Some c)
        with assms \<open>tid = Some t\<close> lines df have "s' = ?s1"
          by (simp add: select_templates_based_on_seqid_cutoff_def)
        with q1 show ?thesis by simp
      next
        case None
        with assms \<open>tid = Some t\<close> lines df obtain r0 where
          "choose_seqid_cutoff env tid df (print_histogram df ?s1) = Some (r0, s')"
          by (auto simp: select_templates_based_on_seqid_cutoff_def
                split: option.splits sum.splits prod.splits)
        then have "no_modeling_between (print_histogram df ?s1) s'"
          by (auto dest: choose_seqid_cutoff_quiet)
        with q1 print_histogram_quiet [of ?s1 df] show ?thesis
          by (blast intro: no_modeling_trans)
      qed
    qed
  qed
qed

lemma select_templates_error:
  assumes "select_templates_based_on_seqid_cutoff env tid cutoff s = Some (Inl e, s')"
  shows "\<not> configuration_error e"
proof -
  have fc: "first_column xs = Inl e' \<Longrightarrow> \<not> configuration_error e'" for xs e'
    by (induction xs arbitrary: e') (auto split: list.splits sum.splits)
  have sc: "second_column flt xs = Inl e' \<Longrightarrow> \<not> configuration_error e'" for flt xs e'
    by (induction xs arbitrary: e') (auto split: list.splits sum.splits option.splits)
  have rs: "read_seqids flt lines = Inl e' \<Longrightarrow> \<not> configuration_error e'" for flt lines e'
    by (auto simp: read_seqids_def Let_def split: sum.splits dest: fc sc)
  from assms show ?thesis
    by (auto simp: select_templates_based_on_seqid_cutoff_def
          split: option.splits sum.splits prod.splits
          dest: rs choose_seqid_cutoff_error)
qed

lemma align_and_select_quiet:
  assumes "align_and_select env self s = Some (r, s')"
  shows "no_modeling_between s s'"
proof -
  obtain r1 s1 where al: "align_all_templates env (targetid self) s = (r1, s1)"
    by (cases "align_all_templates env (targetid self) s")
  then have q1: "no_modeling_between s s1"
    unfolding align_all_templates_def by (rule no_modeling_invoke) simp
  show ?thesis
  proof (cases r1)
    case (Inl e)
    with assms al have "s' = s1" by (simp add: align_and_select_def)
    with q1 show ?thesis by simp
  next
    case (Inr u)
    with assms al obtain r2 where
      "select_templates_based_on_seqid_cutoff env (targetid self) (model_seqid_cutoff self) s1
         = Some (r2, s')"
      by (auto simp: align_and_select_def split: option.splits sum.splits prod.splits)
    then have "no_modeling_between s1 s'" by (rule select_templates_quiet)
    with q1 show ?thesis by (rule no_modeling_trans)
  qed
qed

lemma align_and_select_error:
  "align_and_select env self s = Some (Inl e, s') \<Longrightarrow> \<not> configuration_error e"
  by (auto simp: align_and_select_def align_all_templates_def
        split: option.splits sum.splits prod.splits
        dest: invoke_error select_templates_error)

lemma align_and_select_fields:
  "align_and_select env self s = Some (Inr self', s') \<Longrightarrow>
     self' = self\<lparr>templateids := templateids self'\<rparr>"
  by (auto simp: align_and_select_def split: option.splits sum.splits prod.splits)

section \<open>The constructor, step by step\<close>

lemma ensure_project_quiet: "ensure_project env s = (r, s') \<Longrightarrow> no_modeling_between s s'"
  by (auto simp: ensure_project_def split: if_splits intro: no_modeling_invoke)

lemma ensure_project_error: "ensure_project env s = (Inl e, s') \<Longrightarrow> \<not> configuration_error e"
  by (auto simp: ensure_project_def split: if_splits dest: invoke_error)

lemma check_target_args_error:
  "check_target_args self = Inl e \<Longrightarrow> e = Exception target_error"
  by (auto simp: check_target_args_def split: if_splits)

lemma resolve_target_quiet: "resolve_target env self s = (r, s') \<Longrightarrow> no_modeling_between s s'"
  by (auto simp: resolve_target_def split: if_splits sum.splits prod.splits list.splits
        intro!: no_modeling_betweenI
          [of _ _ "[Gather_Targets_From_UniProt (uniprot_query_string self) (uniprot_domain_regex self)]"])

lemma resolve_target_error:
  "resolve_target env self s = (Inl e, s') \<Longrightarrow>
     configuration_error e \<Longrightarrow> e = Exception discovery_error"
  by (auto simp: resolve_target_def split: if_splits sum.splits prod.splits list.splits)

lemma resolve_target_fields:
  "resolve_target env self s = (Inr self', s') \<Longrightarrow> self' = self\<lparr>targetid := targetid self'\<rparr>"
  by (auto simp: resolve_target_def split: if_splits sum.splits prod.splits list.splits)

lemma find_existing_templates_quiet:
  "find_existing_templates env s = (r, s') \<Longrightarrow> no_modeling_between s s'"
  by (auto simp: find_existing_templates_def split: if_splits sum.splits
        intro!: no_modeling_log)

lemma find_existing_templates_error:
  "find_existing_templates env s = (Inl e, s') \<Longrightarrow> \<not> configuration_error e"
  by (auto simp: find_existing_templates_def split: if_splits sum.splits)

lemma find_existing_templates_world:
  "find_existing_templates env s = (r, s') \<Longrightarrow> world s' = world s"
  by (auto simp: find_existing_templates_def split: if_splits sum.splits)

lemma find_existing_templates_result:
  "find_existing_templates env s = (Inr existing, s') \<Longrightarrow>
     existing = (path_exists env (templates_resolved_seq_path env) (world s)
                 \<and> (\<exists>ts. get_templates_resolved_seq env (world s) = Inr ts \<and> ts \<noteq> []))"
  by (auto simp: find_existing_templates_def split: if_splits sum.splits)

lemma prepare_cases:
  assumes "prepare env self s = (r, s')"
  obtains
    (project_fails) e where "ensure_project env s = (Inl e, s')" "r = Inl e"
  | (args_fail) u e where "ensure_project env s = (Inr u, s')" "check_target_args self = Inl e" "r = Inl e"
  | (target_fails) u s1 e where "ensure_project env s = (Inr u, s1)" "check_target_args self = Inr ()"
      "resolve_target env self s1 = (Inl e, s')" "r = Inl e"
  | (existing_fails) u s1 self1 s2 e where "ensure_project env s = (Inr u, s1)"
      "check_target_args self = Inr ()" "resolve_target env self s1 = (Inr self1, s2)"
      "find_existing_templates env s2 = (Inl e, s')" "r = Inl e"
  | (prepared) u s1 self1 s2 ex where "ensure_project env s = (Inr u, s1)"
      "check_target_args self = Inr ()" "resolve_target env self s1 = (Inr self1, s2)"
      "find_existing_templates env s2 = (Inr ex, s')" "r = Inr (self1, ex)"
  using assms
  by (auto simp: prepare_def split: prod.splits sum.splits)

lemma prepare_quiet:
  assumes "prepare env self s = (r, s')"
  shows "no_modeling_between s s'"
  using assms
proof (cases rule: prepare_cases)
  case project_fails
  then show ?thesis by (auto dest: ensure_project_quiet)
next
  case args_fail
  then show ?thesis by (auto dest: ensure_project_quiet)
next
  case target_fails
  then show ?thesis
    by (blast intro: no_modeling_trans dest: ensure_project_quiet resolve_target_quiet)
next
  case existing_fails
  then show ?thesis
    by (blast intro: no_modeling_trans
          dest: ensure_project_quiet resolve_target_quiet find_existing_templates_quiet)
next
  case prepared
  then show ?thesis
    by (blast intro: no_modeling_trans
          dest: ensure_project_quiet resolve_target_quiet find_existing_templates_quiet)
qed

lemma prepare_error:
  assumes "prepare env self s = (Inl e, s')" and "configuration_error e"
  shows "(e = Exception target_error \<and> check_target_args self \<noteq> Inr ())
         \<or> (e = Exception discovery_error \<and> check_target_args self = Inr ())"
  using assms(1)
proof (cases rule: prepare_cases)
  case project_fails
  with assms(2) show ?thesis by (auto dest: ensure_project_error)
next
  case args_fail
  then show ?thesis by (auto dest: check_target_args_error)
next
  case target_fails
  with assms(2) show ?thesis by (auto dest: resolve_target_error)
next
  case existing_fails
  with assms(2) show ?thesis by (auto dest: find_existing_templates_error)
next
  case prepared
  then show ?thesis by simp
qed

lemma prepare_fields:
  assumes "prepare env self s = (Inr (self1, ex), s')"
  shows "self1 = self\<lparr>targetid := targetid self1\<rparr>"
  using assms
  by (cases rule: prepare_cases) (auto dest: resolve_target_fields)

lemma prepare_existing:
  assumes "prepare env self s = (Inr (self1, ex), s')"
  shows "ex = (path_exists env (templates_resolved_seq_path env) (world s')
               \<and> (\<exists>ts. get_templates_resolved_seq env (world s') = Inr ts \<and> ts \<noteq> []))"
  using assms
proof (cases rule: prepare_cases)
  case (prepared u s1 self1' s2 ex')
  from prepared(4) have "world s' = world s2" by (rule find_existing_templates_world)
  with find_existing_templates_result [OF prepared(4)] prepared(5) show ?thesis by simp
qed simp_all

section \<open>Template resolution and the end of the constructor\<close>

lemma templates_from_pdb_trace:
  assumes "templates_from_pdb env self ex s = Some (r, s')"
  shows "\<exists>k. trace s' = trace s @
           take (Suc k) [Gather_Templates_From_Pdb (pdbids self) (uniprot_domain_regex self)
                           (chainids self) (structure_dirs self),
                         Get_Templates_Resolved_Seq]"
proof -
  let ?g = "Gather_Templates_From_Pdb (pdbids self) (uniprot_domain_regex self)
              (chainids self) (structure_dirs self)"
  obtain r1 s1 where g: "invoke env ?g s = (r1, s1)"
    by (cases "invoke env ?g s")
  then have t1: "trace s1 = trace s @ [?g]" by (rule invoke_trace)
  show ?thesis
  proof (cases r1)
    case (Inl e)
    with assms g have "s' = s1" by (simp add: templates_from_pdb_def)
    with t1 have "trace s' = trace s @ take (Suc 0) [?g, Get_Templates_Resolved_Seq]" by simp
    then show ?thesis by blast
  next
    case (Inr u)
    with assms g have "s' = log Get_Templates_Resolved_Seq s1"
      by (auto simp: templates_from_pdb_def split: sum.splits)
    with t1 have "trace s' = trace s @ take (Suc 1) [?g, Get_Templates_Resolved_Seq]" by simp
    then show ?thesis by blast
  qed
qed

lemma templates_from_pdb_quiet:
  assumes "templates_from_pdb env self ex s = Some (r, s')"
  shows "no_modeling_between s s'"
proof -
  from templates_from_pdb_trace [OF assms] obtain k where
    "trace s' = trace s @
       take (Suc k) [Gather_Templates_From_Pdb (pdbids self) (uniprot_domain_regex self)
                       (chainids self) (structure_dirs self),
                     Get_Templates_Resolved_Seq]" ..
  then show ?thesis
    by (rule no_modeling_betweenI) (cases k, simp_all)
qed

lemma templates_from_uniprot_query_quiet:
  assumes "templates_from_uniprot_query env self ex s = Some (r, s')"
  shows "no_modeling_between s s'"
proof -
  let ?g = "Gather_Templates_From_Uniprot (template_uniprot_query self)
              (uniprot_domain_regex self) (structure_dirs self)"
  obtain r1 s1 where g: "invoke env ?g s = (r1, s1)"
    by (cases "invoke env ?g s")
  then have q1: "no_modeling_between s s1" by (rule no_modeling_invoke) simp
  show ?thesis
  proof (cases r1)
    case (Inl e)
    with assms g have "s' = s1" by (simp add: templates_from_uniprot_query_def)
    with q1 show ?thesis by simp
  next
    case (Inr u)
    with assms g have "align_and_select env self s1 = Some (r, s')"
      by (simp add: templates_from_uniprot_query_def)
    then have "no_modeling_between s1 s'" by (rule align_and_select_quiet)
    with q1 show ?thesis by (rule no_modeling_trans)
  qed
qed

lemma templates_from_existing_quiet:
  "templates_from_existing env self ex s = Some (r, s') \<Longrightarrow> no_modeling_between s s'"
  by (auto simp: templates_from_existing_def split: if_splits dest: align_and_select_quiet)

lemma resolve_templates_quiet:
  "resolve_templates env self ex s = Some (r, s') \<Longrightarrow> no_modeling_between s s'"
  by (auto simp: resolve_templates_def use_given_templateids_def split: if_splits
        dest: templates_from_pdb_quiet templates_from_uniprot_query_quiet
          templates_from_existing_quiet)

lemma resolve_templates_error:
  "resolve_templates env self ex s = Some (Inl e, s') \<Longrightarrow>
     configuration_error e \<Longrightarrow> e = Exception templates_error"
  by (auto simp: resolve_templates_def use_given_templateids_def templates_from_pdb_def
        templates_from_uniprot_query_def templates_from_existing_def
        split: if_splits sum.splits prod.splits
        dest: invoke_error align_and_select_error)

lemma resolve_templates_fields:
  "resolve_templates env self ex s = Some (Inr self', s') \<Longrightarrow>
     self' = self\<lparr>templateids := templateids self'\<rparr>"
  by (auto simp: resolve_templates_def use_given_templateids_def templates_from_pdb_def
        templates_from_uniprot_query_def templates_from_existing_def
        split: if_splits sum.splits prod.splits
        dest: align_and_select_fields)

lemma model_error:
  assumes "model env self tid tids lm pk n s = (Inl e, s')"
  shows "\<not> configuration_error e"
proof -
  have "invoke_all env cs s = (Inl e, s') \<Longrightarrow> \<not> configuration_error e" for cs
  proof (induction cs arbitrary: s)
    case Nil
    then show ?case by simp
  next
    case (Cons c cs)
    then show ?case
      by (cases "invoke env c s" rule: prod.exhaust; cases "fst (invoke env c s)")
         (auto dest: invoke_error)
  qed
  with assms show ?thesis by (simp add: model_invoke_all)
qed

lemma finish_error: "finish env self s = (Inl e, s') \<Longrightarrow> \<not> configuration_error e"
  by (auto simp: finish_def split: if_splits prod.splits sum.splits dest: model_error)

lemma finish_no_templates:
  "\<not> truthy (templateids self) \<Longrightarrow>
     finish env self s = (Inr self, log (Warn no_templates_warning) s)"
  by (simp add: finish_def)

lemma finish_templates:
  "truthy (templateids self) \<Longrightarrow>
     finish env self s =
       (case model env self (targetid self) (templateids self) (loopmodel self)
               (package_for_fah self) (nfahclones self) s of
          (Inl e, s') \<Rightarrow> (Inl e, s')
        | (Inr u, s') \<Rightarrow> (Inr self, s'))"
  by (auto simp: finish_def truthy_def split: option.splits)

lemma QuickModel_init_cases:
  assumes "QuickModel_init env self s = Some (r, s')"
  obtains
    (unprepared) e where "prepare env self s = (Inl e, s')" "r = Inl e"
  | (unresolved) self1 ex s1 e where "prepare env self s = (Inr (self1, ex), s1)"
      "resolve_templates env self1 ex s1 = Some (Inl e, s')" "r = Inl e"
  | (resolved) self1 ex s1 self2 s2 where "prepare env self s = (Inr (self1, ex), s1)"
      "resolve_templates env self1 ex s1 = Some (Inr self2, s2)" "finish env self2 s2 = (r, s')"
  using assms
  by (auto simp: QuickModel_init_def split: prod.splits sum.splits option.splits)

lemma QuickModel_init_error:
  assumes "QuickModel_init env self s = Some (Inl e, s')" and "configuration_error e"
  shows "(e = Exception target_error \<and> check_target_args self \<noteq> Inr ())
         \<or> (e = Exception discovery_error \<and> check_target_args self = Inr ())
         \<or> (e = Exception templates_error \<and> check_target_args self = Inr ())"
  using assms(1)
proof (cases rule: QuickModel_init_cases)
  case unprepared
  with assms(2) show ?thesis by (auto dest: prepare_error)
next
  case (unresolved self1 ex s1 e')
  from unresolved(1) have "check_target_args self = Inr ()"
    by (cases rule: prepare_cases) simp_all
  with unresolved assms(2) show ?thesis by (auto dest: resolve_templates_error)
next
  case resolved
  with assms(2) show ?thesis by (auto dest: finish_error)
qed

section \<open>The properties of the specification\<close>

lemma calls_since_trans:
  assumes "no_modeling_between s s1" and "trace s2 = trace s1 @ evs"
  shows "calls_since s s2 = calls_since s s1 @ evs"
    and "trace s2 = trace s @ calls_since s s2"
proof -
  from assms(1) have "trace s1 = trace s @ calls_since s s1"
    by (simp add: no_modeling_between_def)
  with assms(2) have "trace s2 = trace s @ (calls_since s s1 @ evs)" by simp
  then show "calls_since s s2 = calls_since s s1 @ evs" by (rule calls_since_append)
  with \<open>trace s2 = trace s @ (calls_since s s1 @ evs)\<close>
  show "trace s2 = trace s @ calls_since s s2" by simp
qed

lemma prepared_run:
  assumes "prepare env self s = (Inr (self1, ex), s1)"
    and "resolve_templates env self1 ex s1 = Some (Inr self2, s2)"
  shows "QuickModel_init env self s = Some (finish env self2 s2)"
    and "no_modeling_between s s2"
    and "self2 = self\<lparr>targetid := targetid self2, templateids := templateids self2\<rparr>"
proof -
  show "QuickModel_init env self s = Some (finish env self2 s2)"
    using assms by (simp add: QuickModel_init_def)
  show "no_modeling_between s s2"
    using prepare_quiet [OF assms(1)] resolve_templates_quiet [OF assms(2)]
    by (rule no_modeling_trans)
  obtain t where t: "self1 = self\<lparr>targetid := t\<rparr>"
    using prepare_fields [OF assms(1)] ..
  obtain ts where ts: "self2 = self1\<lparr>templateids := ts\<rparr>"
    using resolve_templates_fields [OF assms(2)] ..
  show "self2 = self\<lparr>targetid := targetid self2, templateids := templateids self2\<rparr>"
    by (simp add: t ts)
qed

text \<open>
  Claim C1. Once the project directory is there (lines 50-51 raised nothing), the constructor
  raises the configuration error of line 54, having made no further call, when the target
  identifier and the UniProt entry name are both absent or both present, and it gets past
  that check exactly when one of the two is given: the check returns normally, and whatever
  the constructor does afterwards, it is not that exception. Present is what the source
  tests: the attribute is neither \<^verbatim>\<open>None\<close> nor empty.
\<close>

theorem target_arguments_checked:
  assumes "ensure_project env s = (Inr (), s1)"
  shows "(check_target_args self = Inr ())
           = (truthy (targetid self) \<noteq> truthy (target_uniprot_entry_name self))
     \<and> (truthy (targetid self) = truthy (target_uniprot_entry_name self) \<longrightarrow>
          QuickModel_init env self s = Some (Inl (Exception target_error), s1))
     \<and> (truthy (targetid self) \<noteq> truthy (target_uniprot_entry_name self) \<longrightarrow>
          (\<forall>s'. QuickModel_init env self s \<noteq> Some (Inl (Exception target_error), s')))"
proof (intro conjI impI allI)
  show "(check_target_args self = Inr ())
          = (truthy (targetid self) \<noteq> truthy (target_uniprot_entry_name self))"
    by (auto simp: check_target_args_def)
next
  assume "truthy (targetid self) = truthy (target_uniprot_entry_name self)"
  then have "check_target_args self = Inl (Exception target_error)"
    by (auto simp: check_target_args_def)
  with assms show "QuickModel_init env self s = Some (Inl (Exception target_error), s1)"
    by (simp add: QuickModel_init_def prepare_def)
next
  fix s'
  assume "truthy (targetid self) \<noteq> truthy (target_uniprot_entry_name self)"
  then have ok: "check_target_args self = Inr ()"
    by (auto simp: check_target_args_def)
  show "QuickModel_init env self s \<noteq> Some (Inl (Exception target_error), s')"
  proof
    assume "QuickModel_init env self s = Some (Inl (Exception target_error), s')"
    from QuickModel_init_error [OF this] ok
    have "target_error = discovery_error \<or> target_error = templates_error" by auto
    then show False
      by (simp add: target_error_def discovery_error_def templates_error_def)
  qed
qed

theorem target_arguments_checked_witness:
  "ensure_project example_env (start []) = (Inr (), start [])
   \<and> check_target_args example_self = Inr ()
   \<and> QuickModel_init example_env example_self (start [])
       \<noteq> Some (Inl (Exception target_error), start [])
   \<and> QuickModel_init example_env (example_self\<lparr>targetid := None\<rparr>) (start [])
       = Some (Inl (Exception target_error), start [])
   \<and> QuickModel_init example_env
         (example_self\<lparr>target_uniprot_entry_name := Some ''EGFR_HUMAN''\<rparr>) (start [])
       = Some (Inl (Exception target_error), start [])"
proof -
  have h: "ensure_project example_env (start []) = (Inr (), start [])"
    by (simp add: ensure_project_def example_env_def)
  from target_arguments_checked [OF h, of example_self]
    target_arguments_checked [OF h, of "example_self\<lparr>targetid := None\<rparr>"]
    target_arguments_checked
      [OF h, of "example_self\<lparr>target_uniprot_entry_name := Some ''EGFR_HUMAN''\<rparr>"]
    h
  show ?thesis by (simp add: example_self_def truthy_def)
qed

section \<open>The modeling sequence\<close>

lemma modeling_sequence_without_loops:
  "modeling_sequence d tid tids True pk n
     = Model_Template_Loops tids # modeling_sequence d tid tids False pk n"
  by (simp add: modeling_sequence_def)

lemma finish_trace:
  assumes "truthy (templateids self)" and "finish env self s = (r, s')"
  shows "\<exists>k. trace s' = trace s @
           take k (modeling_sequence (sim_length self) (targetid self) (templateids self)
                     (loopmodel self) (package_for_fah self) (nfahclones self))"
    and "r = Inr x \<Longrightarrow> trace s' = trace s @
           modeling_sequence (sim_length self) (targetid self) (templateids self)
             (loopmodel self) (package_for_fah self) (nfahclones self)"
    and "r = Inr x \<Longrightarrow> x = self"
proof -
  obtain r0 s0 where m: "model env self (targetid self) (templateids self) (loopmodel self)
      (package_for_fah self) (nfahclones self) s = (r0, s0)"
    by (cases "model env self (targetid self) (templateids self) (loopmodel self)
      (package_for_fah self) (nfahclones self) s")
  from assms m have s': "s' = s0" and r: "r = (case r0 of Inl e \<Rightarrow> Inl e | Inr u \<Rightarrow> Inr self)"
    by (auto simp: finish_templates split: sum.splits)
  from model_trace [OF m] s'
  show "\<exists>k. trace s' = trace s @
           take k (modeling_sequence (sim_length self) (targetid self) (templateids self)
                     (loopmodel self) (package_for_fah self) (nfahclones self))"
    by simp
  show "trace s' = trace s @
           modeling_sequence (sim_length self) (targetid self) (templateids self)
             (loopmodel self) (package_for_fah self) (nfahclones self)" if "r = Inr x"
    using that r model_trace [OF m] s' by (cases r0) simp_all
  show "x = self" if "r = Inr x"
    using that r by (cases r0) simp_all
qed

text \<open>
  Claim C4. A run that reaches the modeling sequence (the target and a non-empty set of
  templates are resolved) makes, after the calls of the resolution, which are none of the
  sequence, the calls of the sequence in its order and nothing else: loop modeling if enabled,
  alignment, building, clustering, implicit refinement, solvation, number of waters, explicit
  refinement, packaging if requested. An exception of a call ends the run there, so the calls
  made are a prefix, and all of them when the constructor returns. With loop modeling disabled
  the sequence is the same without its first call.
\<close>

theorem modeling_sequence_order:
  assumes "prepare env self s = (Inr (self1, ex), s1)"
    and "resolve_templates env self1 ex s1 = Some (Inr self2, s2)"
    and "truthy (templateids self2)"
  shows "\<exists>r s'. QuickModel_init env self s = Some (r, s')
           \<and> no_modeling_between s s2
           \<and> trace s' = trace s2 @ calls_since s2 s'
           \<and> (\<exists>k. calls_since s2 s' =
                 take k (modeling_sequence (sim_length self) (targetid self2) (templateids self2)
                           (loopmodel self) (package_for_fah self) (nfahclones self)))
           \<and> ((\<exists>x. r = Inr x) \<longrightarrow> calls_since s2 s' =
                 modeling_sequence (sim_length self) (targetid self2) (templateids self2)
                   (loopmodel self) (package_for_fah self) (nfahclones self))
           \<and> modeling_sequence (sim_length self) (targetid self2) (templateids self2)
                 True (package_for_fah self) (nfahclones self)
               = Model_Template_Loops (templateids self2) #
                 modeling_sequence (sim_length self) (targetid self2) (templateids self2)
                   False (package_for_fah self) (nfahclones self)"
proof -
  obtain r s' where f: "finish env self2 s2 = (r, s')"
    by (cases "finish env self2 s2")
  note run = prepared_run [OF assms(1,2)]
  obtain t ts where self2: "self2 = self\<lparr>targetid := t, templateids := ts\<rparr>"
    using run(3) ..
  let ?plan = "modeling_sequence (sim_length self) (targetid self2) (templateids self2)
                 (loopmodel self) (package_for_fah self) (nfahclones self)"
  have plan: "modeling_sequence (sim_length self2) (targetid self2) (templateids self2)
                (loopmodel self2) (package_for_fah self2) (nfahclones self2) = ?plan"
    by (simp add: self2)
  from finish_trace(1) [OF assms(3) f] plan obtain k where
    k: "trace s' = trace s2 @ take k ?plan" by auto
  have full: "trace s' = trace s2 @ ?plan" if "r = Inr x" for x
    using finish_trace(2) [OF assms(3) f that] plan by simp
  have init: "QuickModel_init env self s = Some (r, s')"
    using run(1) f by simp
  have grow: "trace s' = trace s2 @ calls_since s2 s'"
    using k by (simp add: calls_since_append)
  have part: "\<exists>k. calls_since s2 s' = take k ?plan"
    using k by (auto simp: calls_since_append)
  have whole: "(\<exists>x. r = Inr x) \<longrightarrow> calls_since s2 s' = ?plan"
    using full by (auto simp: calls_since_append)
  have "QuickModel_init env self s = Some (r, s')
      \<and> no_modeling_between s s2
      \<and> trace s' = trace s2 @ calls_since s2 s'
      \<and> (\<exists>k. calls_since s2 s' = take k ?plan)
      \<and> ((\<exists>x. r = Inr x) \<longrightarrow> calls_since s2 s' = ?plan)
      \<and> modeling_sequence (sim_length self) (targetid self2) (templateids self2)
            True (package_for_fah self) (nfahclones self)
          = Model_Template_Loops (templateids self2) #
            modeling_sequence (sim_length self) (targetid self2) (templateids self2)
              False (package_for_fah self) (nfahclones self)"
    using init run(2) grow part whole
    by (simp only: modeling_sequence_without_loops simp_thms)
  then show ?thesis
    by (intro exI)
qed


lemma example_read_seqids: "read_seqids (py_float example_env) example_lines = Inr example_rows"
  by (simp add: read_seqids_def example_lines_def py_split_def isspace_def example_env_def
        example_float_def example_rows_def)

lemma example_prepare:
  "prepare example_env (example_with cutoff loops packaging clones) (start [])
     = (Inr (example_with cutoff loops packaging clones, True), example_prepared)"
  by (simp add: prepare_def ensure_project_def check_target_args_def resolve_target_def
        find_existing_templates_def example_with_def example_self_def example_env_def
        truthy_def start_def example_prepared_def log_def)

lemma example_select:
  "select_templates_based_on_seqid_cutoff example_env (Some ''EGFR_HUMAN_D0'') (Some cutoff)
       (log (Align_Targets_And_Templates (Some ''EGFR_HUMAN_D0'') None) example_prepared)
     = Some (Inr (selected_templateids example_rows cutoff), example_resolved)"
proof -
  have "seqid_filepath example_env ''EGFR_HUMAN_D0''
      = ''models/EGFR_HUMAN_D0/sequence-identities.txt''"
    by (simp add: example_env_def seqid_filepath_def path_join_def)
  moreover have "readlines example_env ''models/EGFR_HUMAN_D0/sequence-identities.txt'' w
      = Inr example_lines" for w
    by (simp add: example_env_def)
  ultimately show ?thesis
    by (simp add: select_templates_based_on_seqid_cutoff_def example_read_seqids
          example_prepared_def example_resolved_def log_def)
qed

lemma example_resolve:
  "resolve_templates example_env (example_with (Some cutoff) loops packaging clones) True
       example_prepared
     = Some (Inr ((example_with (Some cutoff) loops packaging clones)
                    \<lparr>templateids := Some (selected_templateids example_rows cutoff)\<rparr>),
             example_resolved)"
proof -
  have al: "align_all_templates example_env (Some ''EGFR_HUMAN_D0'') example_prepared
      = (Inr (), log (Align_Targets_And_Templates (Some ''EGFR_HUMAN_D0'') None) example_prepared)"
    by (simp add: align_all_templates_def invoke_def example_env_def example_prepared_def log_def)
  have fields: "targetid (example_with (Some cutoff) loops packaging clones) = Some ''EGFR_HUMAN_D0''"
    "model_seqid_cutoff (example_with (Some cutoff) loops packaging clones) = Some cutoff"
    "templateids (example_with (Some cutoff) loops packaging clones) = None"
    "pdbids (example_with (Some cutoff) loops packaging clones) = None"
    "template_uniprot_query (example_with (Some cutoff) loops packaging clones) = None"
    by (simp_all add: example_with_def example_self_def)
  show ?thesis
    by (simp add: resolve_templates_def templates_from_existing_def align_and_select_def
          fields truthy_def al example_select)
qed

lemma example_selected:
  "selected_templateids example_rows (Finite 50) = [''T1'']"
  "selected_templateids example_rows (Finite 95) = []"
  by (simp_all add: selected_templateids_def rows_above_def example_rows_def)

theorem modeling_sequence_order_witness:
  "prepare example_env (example_with (Some (Finite 50)) False True None) (start [])
     = (Inr (example_with (Some (Finite 50)) False True None, True), example_prepared)
   \<and> resolve_templates example_env (example_with (Some (Finite 50)) False True None) True
       example_prepared
     = Some (Inr ((example_with (Some (Finite 50)) False True None)\<lparr>templateids := Some [''T1'']\<rparr>),
             example_resolved)
   \<and> QuickModel_init example_env (example_with (Some (Finite 50)) False True None) (start [])
     = Some (Inr ((example_with (Some (Finite 50)) False True None)\<lparr>templateids := Some [''T1'']\<rparr>),
             \<lparr>world = [],
              trace = trace example_resolved @
                [Align_Targets_And_Templates (Some ''EGFR_HUMAN_D0'') (Some [''T1'']),
                 Build_Models (Some ''EGFR_HUMAN_D0'') (Some [''T1'']),
                 Cluster_Models (Some ''EGFR_HUMAN_D0''),
                 Refine_Implicit_Md (Some ''EGFR_HUMAN_D0'') (Some [''T1'']) 100,
                 Solvate_Models (Some ''EGFR_HUMAN_D0'') (Some [''T1'']),
                 Determine_Nwaters (Some ''EGFR_HUMAN_D0'') (Some [''T1'']),
                 Refine_Explicit_Md (Some ''EGFR_HUMAN_D0'') (Some [''T1'']) 100,
                 Package_For_Fah (Some ''EGFR_HUMAN_D0'') 1]\<rparr>)"
proof -
  let ?self = "example_with (Some (Finite 50)) False True None"
  let ?self2 = "?self\<lparr>templateids := Some [''T1'']\<rparr>"
  have h1: "prepare example_env ?self (start []) = (Inr (?self, True), example_prepared)"
    by (rule example_prepare)
  have h2: "resolve_templates example_env ?self True example_prepared
      = Some (Inr ?self2, example_resolved)"
    using example_resolve [of "Finite 50" False True None] by (simp add: example_selected)
  have h3: "truthy (templateids ?self2)"
    by (simp add: truthy_def)
  from modeling_sequence_order [OF h1 h2 h3] obtain r s' where
    init: "QuickModel_init example_env ?self (start []) = Some (r, s')"
    and grow: "trace s' = trace example_resolved @ calls_since example_resolved s'"
    and full: "(\<exists>x. r = Inr x) \<longrightarrow> calls_since example_resolved s' =
        modeling_sequence (sim_length ?self) (targetid ?self2) (templateids ?self2)
          (loopmodel ?self) (package_for_fah ?self) (nfahclones ?self)"
    by blast
  have run: "QuickModel_init example_env ?self (start []) = Some (finish example_env ?self2 example_resolved)"
    using h1 h2 by (simp add: QuickModel_init_def)
  have fin: "finish example_env ?self2 example_resolved
      = (Inr ?self2,
         \<lparr>world = [],
          trace = trace example_resolved @
            [Align_Targets_And_Templates (Some ''EGFR_HUMAN_D0'') (Some [''T1'']),
             Build_Models (Some ''EGFR_HUMAN_D0'') (Some [''T1'']),
             Cluster_Models (Some ''EGFR_HUMAN_D0''),
             Refine_Implicit_Md (Some ''EGFR_HUMAN_D0'') (Some [''T1'']) 100,
             Solvate_Models (Some ''EGFR_HUMAN_D0'') (Some [''T1'']),
             Determine_Nwaters (Some ''EGFR_HUMAN_D0'') (Some [''T1'']),
             Refine_Explicit_Md (Some ''EGFR_HUMAN_D0'') (Some [''T1'']) 100,
             Package_For_Fah (Some ''EGFR_HUMAN_D0'') 1]\<rparr>)"
    by (simp add: finish_def truthy_def model_def Let_def invoke_def example_env_def
          example_with_def example_self_def example_resolved_def log_def nclones_def)
  from h1 h2 run fin init show ?thesis by simp
qed

section \<open>The empty template set\<close>

text \<open>
  Claim C3. When the target is resolved and the resolution of the templates ends with an empty
  set, the constructor returns normally; what it does after the resolution is the one warning
  of line 92, and from its start to its end it made no call of the modeling sequence.
\<close>

theorem no_templates_only_warns:
  assumes "prepare env self s = (Inr (self1, ex), s1)"
    and "resolve_templates env self1 ex s1 = Some (Inr self2, s2)"
    and "\<not> truthy (templateids self2)"
  shows "QuickModel_init env self s = Some (Inr self2, log (Warn no_templates_warning) s2)
     \<and> calls_since s2 (log (Warn no_templates_warning) s2) = [Warn no_templates_warning]
     \<and> no_modeling_between s (log (Warn no_templates_warning) s2)"
proof -
  note run = prepared_run [OF assms(1,2)]
  have "QuickModel_init env self s = Some (Inr self2, log (Warn no_templates_warning) s2)"
    using run(1) assms(3) by (simp add: finish_no_templates)
  moreover have "calls_since s2 (log (Warn no_templates_warning) s2) = [Warn no_templates_warning]"
    by (rule calls_since_append) simp
  moreover have "no_modeling_between s (log (Warn no_templates_warning) s2)"
    using run(2) by (rule no_modeling_trans) (rule no_modeling_log, simp)
  ultimately show ?thesis by simp
qed

theorem no_templates_only_warns_witness:
  "prepare example_env (example_with (Some (Finite 95)) True True None) (start [])
     = (Inr (example_with (Some (Finite 95)) True True None, True), example_prepared)
   \<and> resolve_templates example_env (example_with (Some (Finite 95)) True True None) True
       example_prepared
     = Some (Inr ((example_with (Some (Finite 95)) True True None)\<lparr>templateids := Some []\<rparr>),
             example_resolved)
   \<and> QuickModel_init example_env (example_with (Some (Finite 95)) True True None) (start [])
     = Some (Inr ((example_with (Some (Finite 95)) True True None)\<lparr>templateids := Some []\<rparr>),
             \<lparr>world = [],
              trace = [Get_Templates_Resolved_Seq,
                       Align_Targets_And_Templates (Some ''EGFR_HUMAN_D0'') None,
                       Open_Readlines ''models/EGFR_HUMAN_D0/sequence-identities.txt'',
                       Warn ''No templates found. Exiting.'']\<rparr>)"
proof -
  let ?self = "example_with (Some (Finite 95)) True True None"
  let ?self2 = "?self\<lparr>templateids := Some []\<rparr>"
  have h1: "prepare example_env ?self (start []) = (Inr (?self, True), example_prepared)"
    by (rule example_prepare)
  have h2: "resolve_templates example_env ?self True example_prepared
      = Some (Inr ?self2, example_resolved)"
    using example_resolve [of "Finite 95" True True None] by (simp add: example_selected)
  have h3: "\<not> truthy (templateids ?self2)"
    by (simp add: truthy_def)
  from no_templates_only_warns [OF h1 h2 h3] h1 h2
  show ?thesis
    by (simp add: example_resolved_def log_def no_templates_warning_def)
qed

section \<open>Packaging\<close>

lemma packaging_in_sequence:
  "Package_For_Fah t k \<in> set (modeling_sequence d tid tids lm pk n) \<Longrightarrow>
     pk \<and> t = tid \<and> k = nclones n"
  by (auto simp: modeling_sequence_def nclones_spec split: if_splits)

lemma no_packaging_in_sequence:
  "list_all (\<lambda>c. \<not> packaging_call c) (modeling_sequence d tid tids lm False n)"
  by (simp add: modeling_sequence_def)

lemma packaging_is_modeling: "packaging_call c \<Longrightarrow> modeling_call c"
  by (cases c) simp_all

lemma last_of_sequence:
  "last (modeling_sequence d tid tids lm True n) = Package_For_Fah tid (nclones n)"
  by (simp add: modeling_sequence_def nclones_spec)

text \<open>The calls of a whole run: those of the resolution, then a warning or a prefix of the sequence.\<close>

lemma QuickModel_init_calls:
  assumes "QuickModel_init env self s = Some (r, s')"
  shows "\<exists>quiet rest. calls_since s s' = quiet @ rest
           \<and> list_all (\<lambda>c. \<not> modeling_call c) quiet
           \<and> (rest = [] \<or> rest = [Warn no_templates_warning]
              \<or> (\<exists>k tid tids. rest = take k (modeling_sequence (sim_length self) tid tids
                     (loopmodel self) (package_for_fah self) (nfahclones self))))"
  using assms
proof (cases rule: QuickModel_init_cases)
  case (unprepared e)
  from prepare_quiet [OF unprepared(1)]
  have "calls_since s s' = calls_since s s' @ []"
    "list_all (\<lambda>c. \<not> modeling_call c) (calls_since s s')"
    by (simp_all add: no_modeling_between_def)
  then show ?thesis by blast
next
  case (unresolved self1 ex s1 e)
  from prepare_quiet [OF unresolved(1)] resolve_templates_quiet [OF unresolved(2)]
  have "no_modeling_between s s'" by (rule no_modeling_trans)
  then have "calls_since s s' = calls_since s s' @ []"
    "list_all (\<lambda>c. \<not> modeling_call c) (calls_since s s')"
    by (simp_all add: no_modeling_between_def)
  then show ?thesis by blast
next
  case (resolved self1 ex s1 self2 s2)
  note run = prepared_run [OF resolved(1,2)]
  from run(2) have quiet: "list_all (\<lambda>c. \<not> modeling_call c) (calls_since s s2)"
    by (simp add: no_modeling_between_def)
  obtain t ts where self2: "self2 = self\<lparr>targetid := t, templateids := ts\<rparr>"
    using run(3) ..
  show ?thesis
  proof (cases "truthy (templateids self2)")
    case False
    with resolved(3) have "trace s' = trace s2 @ [Warn no_templates_warning]"
      by (auto simp: finish_no_templates)
    from calls_since_trans(1) [OF run(2) this] quiet show ?thesis by blast
  next
    case True
    from finish_trace(1) [OF True resolved(3)] obtain k where
      "trace s' = trace s2 @ take k (modeling_sequence (sim_length self) (targetid self2)
          (templateids self2) (loopmodel self) (package_for_fah self) (nfahclones self))"
      by (auto simp: self2)
    from calls_since_trans(1) [OF run(2) this] quiet show ?thesis by blast
  qed
qed


lemma QuickModel_init_returns:
  assumes "QuickModel_init env self s = Some (Inr self', s')" and "truthy (templateids self')"
  shows "\<exists>s2. no_modeling_between s s2 \<and>
           trace s' = trace s2 @ modeling_sequence (sim_length self) (targetid self')
             (templateids self') (loopmodel self) (package_for_fah self) (nfahclones self)"
  using assms(1)
proof (cases rule: QuickModel_init_cases)
  case (resolved self1 ex s1 self2 s2)
  note run = prepared_run [OF resolved(1,2)]
  obtain t ts where self2: "self2 = self\<lparr>targetid := t, templateids := ts\<rparr>"
    using run(3) ..
  have same: "self' = self2"
  proof (cases "truthy (templateids self2)")
    case True
    from finish_trace(3) [OF True resolved(3)] show ?thesis by simp
  next
    case False
    with resolved(3) show ?thesis by (simp add: finish_no_templates)
  qed
  with assms(2) have "truthy (templateids self2)" by simp
  from finish_trace(2) [OF this resolved(3)] same
  have "trace s' = trace s2 @ modeling_sequence (sim_length self) (targetid self')
      (templateids self') (loopmodel self) (package_for_fah self) (nfahclones self)"
    by (simp add: self2)
  with run(2) show ?thesis by blast
qed simp_all

text \<open>
  Claim C8. In every run that returns or raises, a packaging call is made only when packaging
  is requested, and then with the clone count given, or 1 when none is given (or 0 is); so
  with packaging requested and no clone count it receives 1, and when the run returns with
  templates the packaging call, for the resolved target, is its last call. When packaging is
  not requested no call of the run is a packaging call.
\<close>

theorem packaging_clone_count:
  assumes "QuickModel_init env self s = Some (r, s')"
  shows "(\<forall>t k. Package_For_Fah t k \<in> set (calls_since s s') \<longrightarrow>
            package_for_fah self \<and> k = nclones (nfahclones self)
            \<and> (\<not> truthy_int (nfahclones self) \<longrightarrow> k = 1))
     \<and> (\<forall>self'. r = Inr self' \<and> truthy (templateids self') \<and> package_for_fah self
            \<and> nfahclones self = None \<longrightarrow>
            last (trace s') = Package_For_Fah (targetid self') 1)
     \<and> (\<not> package_for_fah self \<longrightarrow> list_all (\<lambda>c. \<not> packaging_call c) (calls_since s s'))"
proof -
  from QuickModel_init_calls [OF assms] obtain quiet rest where
    calls: "calls_since s s' = quiet @ rest"
    and quiet: "list_all (\<lambda>c. \<not> modeling_call c) quiet"
    and rest: "rest = [] \<or> rest = [Warn no_templates_warning]
       \<or> (\<exists>k tid tids. rest = take k (modeling_sequence (sim_length self) tid tids
              (loopmodel self) (package_for_fah self) (nfahclones self)))"
    by blast
  have one: "\<not> truthy_int n \<Longrightarrow> nclones n = 1" for n
    by (auto simp: truthy_int_def nclones_def split: option.splits)
  have in_rest: "package_for_fah self \<and> k = nclones (nfahclones self)"
    if "Package_For_Fah t k \<in> set (calls_since s s')" for t k
  proof -
    from quiet have "Package_For_Fah t k \<notin> set quiet"
      by (auto simp: list_all_iff)
    with that calls have "Package_For_Fah t k \<in> set rest" by simp
    with rest obtain j tid tids where
      "Package_For_Fah t k \<in> set (take j (modeling_sequence (sim_length self) tid tids
          (loopmodel self) (package_for_fah self) (nfahclones self)))"
      by auto
    then have "Package_For_Fah t k \<in> set (modeling_sequence (sim_length self) tid tids
          (loopmodel self) (package_for_fah self) (nfahclones self))"
      by (rule in_set_takeD)
    then show ?thesis by (auto dest: packaging_in_sequence)
  qed
  have first: "\<forall>t k. Package_For_Fah t k \<in> set (calls_since s s') \<longrightarrow>
            package_for_fah self \<and> k = nclones (nfahclones self)
            \<and> (\<not> truthy_int (nfahclones self) \<longrightarrow> k = 1)"
    using in_rest one by blast
  have second: "\<forall>self'. r = Inr self' \<and> truthy (templateids self') \<and> package_for_fah self
            \<and> nfahclones self = None \<longrightarrow>
            last (trace s') = Package_For_Fah (targetid self') 1"
  proof (intro allI impI)
    fix self'
    assume a: "r = Inr self' \<and> truthy (templateids self') \<and> package_for_fah self
            \<and> nfahclones self = None"
    with assms have init: "QuickModel_init env self s = Some (Inr self', s')" by simp
    from a have tpl: "truthy (templateids self')" by simp
    from QuickModel_init_returns [OF init tpl] obtain s2 where
      "no_modeling_between s s2"
      "trace s' = trace s2 @ modeling_sequence (sim_length self) (targetid self')
         (templateids self') (loopmodel self) (package_for_fah self) (nfahclones self)"
      by blast
    with a show "last (trace s') = Package_For_Fah (targetid self') 1"
      by (simp add: modeling_sequence_def)
  qed
  have third: "\<not> package_for_fah self \<longrightarrow> list_all (\<lambda>c. \<not> packaging_call c) (calls_since s s')"
  proof
    assume no: "\<not> package_for_fah self"
    show "list_all (\<lambda>c. \<not> packaging_call c) (calls_since s s')"
      unfolding list_all_iff
    proof
      fix c assume c: "c \<in> set (calls_since s s')"
      show "\<not> packaging_call c"
      proof
        assume "packaging_call c"
        then obtain t k where "c = Package_For_Fah t k" by (cases c) simp_all
        with c in_rest no show False by blast
      qed
    qed
  qed
  from first second third show ?thesis by (intro conjI)
qed

lemma example_packaged_run:
  "QuickModel_init example_env (example_with (Some (Finite 50)) False True None) (start [])
     = Some (Inr ((example_with (Some (Finite 50)) False True None)\<lparr>templateids := Some [''T1'']\<rparr>),
             \<lparr>world = [],
              trace = [Get_Templates_Resolved_Seq,
                       Align_Targets_And_Templates (Some ''EGFR_HUMAN_D0'') None,
                       Open_Readlines ''models/EGFR_HUMAN_D0/sequence-identities.txt'',
                       Align_Targets_And_Templates (Some ''EGFR_HUMAN_D0'') (Some [''T1'']),
                       Build_Models (Some ''EGFR_HUMAN_D0'') (Some [''T1'']),
                       Cluster_Models (Some ''EGFR_HUMAN_D0''),
                       Refine_Implicit_Md (Some ''EGFR_HUMAN_D0'') (Some [''T1'']) 100,
                       Solvate_Models (Some ''EGFR_HUMAN_D0'') (Some [''T1'']),
                       Determine_Nwaters (Some ''EGFR_HUMAN_D0'') (Some [''T1'']),
                       Refine_Explicit_Md (Some ''EGFR_HUMAN_D0'') (Some [''T1'']) 100,
                       Package_For_Fah (Some ''EGFR_HUMAN_D0'') 1]\<rparr>)"
proof -
  let ?self = "example_with (Some (Finite 50)) False True None"
  have h1: "prepare example_env ?self (start []) = (Inr (?self, True), example_prepared)"
    by (rule example_prepare)
  have h2: "resolve_templates example_env ?self True example_prepared
      = Some (Inr (?self\<lparr>templateids := Some [''T1'']\<rparr>), example_resolved)"
    using example_resolve [of "Finite 50" False True None] by (simp add: example_selected)
  have run: "QuickModel_init example_env ?self (start [])
      = Some (finish example_env (?self\<lparr>templateids := Some [''T1'']\<rparr>) example_resolved)"
    using h1 h2 by (simp add: QuickModel_init_def)
  show ?thesis
    unfolding run
    by (simp add: finish_def truthy_def model_def Let_def invoke_def
          example_env_def example_with_def example_self_def example_resolved_def log_def
          nclones_def)
qed

theorem packaging_clone_count_witness:
  "(\<exists>r s'. QuickModel_init example_env (example_with (Some (Finite 50)) False True None)
              (start []) = Some (r, s')
      \<and> Package_For_Fah (Some ''EGFR_HUMAN_D0'') 1 \<in> set (calls_since (start []) s')
      \<and> (\<forall>t k. Package_For_Fah t k \<in> set (calls_since (start []) s') \<longrightarrow> k = 1)
      \<and> last (trace s') = Package_For_Fah (Some ''EGFR_HUMAN_D0'') 1)"
proof -
  let ?self = "example_with (Some (Finite 50)) False True None"
  note run = example_packaged_run
  have fields: "package_for_fah ?self" "nfahclones ?self = None" "\<not> truthy_int (nfahclones ?self)"
    by (simp_all add: example_with_def example_self_def truthy_int_def)
  from packaging_clone_count [OF run] fields
  have "\<forall>t k. Package_For_Fah t k \<in> set (calls_since (start [])
      \<lparr>world = [],
       trace = [Get_Templates_Resolved_Seq,
                Align_Targets_And_Templates (Some ''EGFR_HUMAN_D0'') None,
                Open_Readlines ''models/EGFR_HUMAN_D0/sequence-identities.txt'',
                Align_Targets_And_Templates (Some ''EGFR_HUMAN_D0'') (Some [''T1'']),
                Build_Models (Some ''EGFR_HUMAN_D0'') (Some [''T1'']),
                Cluster_Models (Some ''EGFR_HUMAN_D0''),
                Refine_Implicit_Md (Some ''EGFR_HUMAN_D0'') (Some [''T1'']) 100,
                Solvate_Models (Some ''EGFR_HUMAN_D0'') (Some [''T1'']),
                Determine_Nwaters (Some ''EGFR_HUMAN_D0'') (Some [''T1'']),
                Refine_Explicit_Md (Some ''EGFR_HUMAN_D0'') (Some [''T1'']) 100,
                Package_For_Fah (Some ''EGFR_HUMAN_D0'') 1]\<rparr>) \<longrightarrow> k = 1"
    by blast
  with run show ?thesis
    by (simp add: calls_since_def start_def)
qed

section \<open>Target discovery\<close>

lemma finish_self: "finish env self s = (Inr x, s') \<Longrightarrow> x = self"
  by (auto simp: finish_def split: if_splits prod.splits sum.splits)

lemma QuickModel_init_targetid:
  assumes "ensure_project env s = (Inr (), s1)"
    and "resolve_target env self s1 = (Inr self1, s2)"
    and "QuickModel_init env self s = Some (Inr self', s')"
  shows "targetid self' = targetid self1"
  using assms(3)
proof (cases rule: QuickModel_init_cases)
  case (resolved self1' ex s1' self2 s2')
  from resolved(1) assms(1,2) have "self1' = self1"
    by (cases rule: prepare_cases) simp_all
  moreover obtain ts where "self2 = self1'\<lparr>templateids := ts\<rparr>"
    using resolve_templates_fields [OF resolved(2)] ..
  moreover from resolved(3) have "self' = self2" by (rule finish_self)
  ultimately show ?thesis by simp
qed simp_all

text \<open>
  Claim C5. With no target identifier (and the project directory there), a missing
  domain pattern makes the constructor raise a configuration error before any call: the one of
  line 58 when the entry name is given, the one of line 54 when it is not. With the entry name
  \<open>n\<close> and a pattern given, the discovery is called once with the query \<^verbatim>\<open>mnemonic:\<close>\<open>n\<close> and
  the pattern; when it returns targets, the first of them is the target of the object from
  then on, also in the object the constructor returns.
\<close>

theorem target_discovery:
  assumes "ensure_project env s = (Inr (), s1)" and "\<not> truthy (targetid self)"
  shows "(\<not> truthy (uniprot_domain_regex self) \<longrightarrow>
            QuickModel_init env self s =
              Some (Inl (Exception (if truthy (target_uniprot_entry_name self)
                                    then discovery_error else target_error)), s1))
     \<and> (truthy (uniprot_domain_regex self) \<and> target_uniprot_entry_name self = Some n \<and> n \<noteq> [] \<longrightarrow>
          (\<exists>r s2. resolve_target env self s1 = (r, s2)
             \<and> calls_since s1 s2 =
                 [Gather_Targets_From_UniProt (''mnemonic:'' @ n) (uniprot_domain_regex self)])
          \<and> (\<forall>t ts w.
                GatherTargetsFromUniProt env (''mnemonic:'' @ n) (uniprot_domain_regex self) (world s1)
                  = Inr (t # ts, w) \<longrightarrow>
                resolve_target env self s1 =
                  (Inr (self\<lparr>targetid := Some t\<rparr>),
                   log (Gather_Targets_From_UniProt (''mnemonic:'' @ n) (uniprot_domain_regex self))
                     (s1\<lparr>world := w\<rparr>))
                \<and> (\<forall>self' s'. QuickModel_init env self s = Some (Inr self', s') \<longrightarrow>
                      targetid self' = Some t)))"
proof (intro conjI impI)
  assume no_regex: "\<not> truthy (uniprot_domain_regex self)"
  show "QuickModel_init env self s =
          Some (Inl (Exception (if truthy (target_uniprot_entry_name self)
                                then discovery_error else target_error)), s1)"
  proof (cases "truthy (target_uniprot_entry_name self)")
    case True
    with assms(2) have "check_target_args self = Inr ()"
      by (simp add: check_target_args_def)
    moreover from assms(2) no_regex
    have "resolve_target env self s1 = (Inl (Exception discovery_error), s1)"
      by (simp add: resolve_target_def)
    ultimately show ?thesis
      using assms(1) True by (simp add: QuickModel_init_def prepare_def)
  next
    case False
    with assms(2) have "check_target_args self = Inl (Exception target_error)"
      by (simp add: check_target_args_def)
    with assms(1) False show ?thesis
      by (simp add: QuickModel_init_def prepare_def)
  qed
next
  assume given: "truthy (uniprot_domain_regex self) \<and> target_uniprot_entry_name self = Some n \<and> n \<noteq> []"
  then have name: "truthy (target_uniprot_entry_name self)"
    and query: "uniprot_query_string self = ''mnemonic:'' @ n"
    by (simp_all add: truthy_def uniprot_query_string_def str_of_def)
  let ?call = "Gather_Targets_From_UniProt (''mnemonic:'' @ n) (uniprot_domain_regex self)"
  obtain r s2 where rt: "resolve_target env self s1 = (r, s2)"
    by (cases "resolve_target env self s1")
  with assms(2) given name query have "trace s2 = trace s1 @ [?call]"
    by (auto simp: resolve_target_def split: sum.splits prod.splits list.splits)
  then have "calls_since s1 s2 = [?call]" by (rule calls_since_append)
  with rt show "\<exists>r s2. resolve_target env self s1 = (r, s2) \<and> calls_since s1 s2 = [?call]"
    by blast
  show "\<forall>t ts w.
          GatherTargetsFromUniProt env (''mnemonic:'' @ n) (uniprot_domain_regex self) (world s1)
            = Inr (t # ts, w) \<longrightarrow>
          resolve_target env self s1 = (Inr (self\<lparr>targetid := Some t\<rparr>), log ?call (s1\<lparr>world := w\<rparr>))
          \<and> (\<forall>self' s'. QuickModel_init env self s = Some (Inr self', s') \<longrightarrow>
                targetid self' = Some t)"
  proof (intro allI impI)
    fix t ts w
    assume found: "GatherTargetsFromUniProt env (''mnemonic:'' @ n) (uniprot_domain_regex self)
        (world s1) = Inr (t # ts, w)"
    with assms(2) given name query
    have res: "resolve_target env self s1
        = (Inr (self\<lparr>targetid := Some t\<rparr>), log ?call (s1\<lparr>world := w\<rparr>))"
      by (simp add: resolve_target_def)
    have "targetid self' = Some t" if "QuickModel_init env self s = Some (Inr self', s')"
      for self' s'
      using QuickModel_init_targetid [OF assms(1) res that] by simp
    with res show "resolve_target env self s1
          = (Inr (self\<lparr>targetid := Some t\<rparr>), log ?call (s1\<lparr>world := w\<rparr>))
        \<and> (\<forall>self' s'. QuickModel_init env self s = Some (Inr self', s') \<longrightarrow>
              targetid self' = Some t)"
      by blast
  qed
qed

theorem target_discovery_witness:
  "ensure_project example_env (start []) = (Inr (), start [])
   \<and> \<not> truthy (targetid (example_self\<lparr>targetid := None,
          target_uniprot_entry_name := Some ''EGFR_HUMAN'', uniprot_domain_regex := Some ''^PK_Tyr''\<rparr>))
   \<and> resolve_target example_env
        (example_self\<lparr>targetid := None, target_uniprot_entry_name := Some ''EGFR_HUMAN'',
           uniprot_domain_regex := Some ''^PK_Tyr''\<rparr>) (start [])
      = (Inr (example_self\<lparr>targetid := Some ''EGFR_HUMAN_D0'',
                target_uniprot_entry_name := Some ''EGFR_HUMAN'',
                uniprot_domain_regex := Some ''^PK_Tyr''\<rparr>),
         \<lparr>world = [],
          trace = [Gather_Targets_From_UniProt ''mnemonic:EGFR_HUMAN'' (Some ''^PK_Tyr'')]\<rparr>)
   \<and> QuickModel_init example_env
        (example_self\<lparr>targetid := None, target_uniprot_entry_name := Some ''EGFR_HUMAN''\<rparr>)
        (start [])
      = Some (Inl (Exception discovery_error), start [])"
proof -
  let ?self = "example_self\<lparr>targetid := None, target_uniprot_entry_name := Some ''EGFR_HUMAN'',
     uniprot_domain_regex := Some ''^PK_Tyr''\<rparr>"
  let ?bad = "example_self\<lparr>targetid := None, target_uniprot_entry_name := Some ''EGFR_HUMAN''\<rparr>"
  have h1: "ensure_project example_env (start []) = (Inr (), start [])"
    by (simp add: ensure_project_def example_env_def)
  have h2: "\<not> truthy (targetid ?self)" "\<not> truthy (targetid ?bad)"
    by (simp_all add: truthy_def)
  have found: "GatherTargetsFromUniProt example_env (''mnemonic:'' @ ''EGFR_HUMAN'')
      (uniprot_domain_regex ?self) (world (start []))
      = Inr (''EGFR_HUMAN_D0'' # [''EGFR_HUMAN_D1''], [])"
    by (simp add: example_env_def start_def)
  from target_discovery [OF h1 h2(1), of "''EGFR_HUMAN''"] found
  have "resolve_target example_env ?self (start [])
      = (Inr (?self\<lparr>targetid := Some ''EGFR_HUMAN_D0''\<rparr>),
         log (Gather_Targets_From_UniProt (''mnemonic:'' @ ''EGFR_HUMAN'') (uniprot_domain_regex ?self))
           ((start [])\<lparr>world := []\<rparr>))"
    by (simp add: truthy_def)
  moreover from target_discovery [OF h1 h2(2), of "''EGFR_HUMAN''"]
  have "QuickModel_init example_env ?bad (start []) = Some (Inl (Exception discovery_error), start [])"
    by (simp add: truthy_def example_self_def)
  ultimately show ?thesis
    using h1 h2 by (simp add: log_def start_def example_self_def)
qed

section \<open>Template identifiers given by the caller\<close>

text \<open>
  Claim C6. With template identifiers given (and lines 50-72 passed), the constructor raises the
  configuration error of line 76, with no further call, when no resolved-sequence file with at
  least one template is found. When one is found, the resolution neither calls anything nor
  changes the identifiers: the next calls are those of the modeling sequence, made for the
  identifiers as given.
\<close>

theorem given_templateids_used:
  assumes "prepare env self s = (Inr (self1, ex), s1)" and "truthy (templateids self)"
  shows "ex = (path_exists env (templates_resolved_seq_path env) (world s1)
               \<and> (\<exists>ts. get_templates_resolved_seq env (world s1) = Inr ts \<and> ts \<noteq> []))
     \<and> (\<not> ex \<longrightarrow> QuickModel_init env self s = Some (Inl (Exception templates_error), s1))
     \<and> (ex \<longrightarrow> resolve_templates env self1 ex s1 = Some (Inr self1, s1)
            \<and> templateids self1 = templateids self
            \<and> (\<exists>r s'. QuickModel_init env self s = Some (r, s')
                 \<and> (\<exists>k. calls_since s1 s' =
                       take k (modeling_sequence (sim_length self) (targetid self1)
                                 (templateids self) (loopmodel self) (package_for_fah self)
                                 (nfahclones self)))
                 \<and> ((\<exists>x. r = Inr x) \<longrightarrow> calls_since s1 s' =
                       modeling_sequence (sim_length self) (targetid self1)
                         (templateids self) (loopmodel self) (package_for_fah self)
                         (nfahclones self))))"
proof (intro conjI impI)
  obtain t where self1: "self1 = self\<lparr>targetid := t\<rparr>"
    using prepare_fields [OF assms(1)] ..
  then have tpl: "templateids self1 = templateids self" by simp
  with assms(2) have given: "truthy (templateids self1)" by simp
  show "ex = (path_exists env (templates_resolved_seq_path env) (world s1)
               \<and> (\<exists>ts. get_templates_resolved_seq env (world s1) = Inr ts \<and> ts \<noteq> []))"
    using assms(1) by (rule prepare_existing)
  show "QuickModel_init env self s = Some (Inl (Exception templates_error), s1)" if "\<not> ex"
    using assms(1) given that
    by (simp add: QuickModel_init_def resolve_templates_def use_given_templateids_def)
  assume ex
  with given show res: "resolve_templates env self1 ex s1 = Some (Inr self1, s1)"
    by (simp add: resolve_templates_def use_given_templateids_def)
  show "templateids self1 = templateids self" by (rule tpl)
  obtain r s' where f: "finish env self1 s1 = (r, s')"
    by (cases "finish env self1 s1")
  let ?plan = "modeling_sequence (sim_length self) (targetid self1) (templateids self)
                 (loopmodel self) (package_for_fah self) (nfahclones self)"
  have plan: "modeling_sequence (sim_length self1) (targetid self1) (templateids self1)
                (loopmodel self1) (package_for_fah self1) (nfahclones self1) = ?plan"
    by (simp add: self1)
  from finish_trace(1) [OF given f] plan obtain k where
    k: "trace s' = trace s1 @ take k ?plan" by auto
  have full: "trace s' = trace s1 @ ?plan" if "r = Inr x" for x
    using finish_trace(2) [OF given f that] plan by simp
  have "QuickModel_init env self s = Some (r, s')
      \<and> (\<exists>k. calls_since s1 s' = take k ?plan)
      \<and> ((\<exists>x. r = Inr x) \<longrightarrow> calls_since s1 s' = ?plan)"
    using prepared_run(1) [OF assms(1) res] f k full
    by (auto simp: calls_since_append)
  then show "\<exists>r s'. QuickModel_init env self s = Some (r, s')
      \<and> (\<exists>k. calls_since s1 s' = take k ?plan)
      \<and> ((\<exists>x. r = Inr x) \<longrightarrow> calls_since s1 s' = ?plan)"
    by (intro exI)
qed

lemma example_prepare_given:
  "prepare (example_env\<lparr>path_exists := found\<rparr>) (example_self\<lparr>templateids := Some [''T9'']\<rparr>) (start [])
     = (if found (templates_resolved_seq_path example_env) []
        then (Inr (example_self\<lparr>templateids := Some [''T9'']\<rparr>, True), example_prepared)
        else (Inr (example_self\<lparr>templateids := Some [''T9'']\<rparr>, False), start []))"
  by (simp add: prepare_def ensure_project_def check_target_args_def resolve_target_def
        find_existing_templates_def example_self_def example_env_def templates_resolved_seq_path_def
        truthy_def start_def example_prepared_def log_def)

theorem given_templateids_used_witness:
  "prepare (example_env\<lparr>path_exists := \<lambda>p w. False\<rparr>)
       (example_self\<lparr>templateids := Some [''T9'']\<rparr>) (start [])
     = (Inr (example_self\<lparr>templateids := Some [''T9'']\<rparr>, False), start [])
   \<and> QuickModel_init (example_env\<lparr>path_exists := \<lambda>p w. False\<rparr>)
       (example_self\<lparr>templateids := Some [''T9'']\<rparr>) (start [])
     = Some (Inl (Exception ''No existing templates found.''), start [])
   \<and> prepare (example_env\<lparr>path_exists := \<lambda>p w. True\<rparr>)
       (example_self\<lparr>templateids := Some [''T9'']\<rparr>) (start [])
     = (Inr (example_self\<lparr>templateids := Some [''T9'']\<rparr>, True), example_prepared)
   \<and> resolve_templates (example_env\<lparr>path_exists := \<lambda>p w. True\<rparr>)
       (example_self\<lparr>templateids := Some [''T9'']\<rparr>) True example_prepared
     = Some (Inr (example_self\<lparr>templateids := Some [''T9'']\<rparr>), example_prepared)"
proof -
  let ?self = "example_self\<lparr>templateids := Some [''T9'']\<rparr>"
  have given: "truthy (templateids ?self)" by (simp add: truthy_def)
  have none: "prepare (example_env\<lparr>path_exists := \<lambda>p w. False\<rparr>) ?self (start [])
      = (Inr (?self, False), start [])"
    by (simp add: example_prepare_given)
  have some: "prepare (example_env\<lparr>path_exists := \<lambda>p w. True\<rparr>) ?self (start [])
      = (Inr (?self, True), example_prepared)"
    by (simp add: example_prepare_given)
  from given_templateids_used [OF none given] given_templateids_used [OF some given] none some
  show ?thesis by (simp add: templates_error_def)
qed

section \<open>An empty list of template identifiers\<close>

lemma resolve_target_templateids:
  "resolve_target env (self\<lparr>templateids := x\<rparr>) s =
     (case resolve_target env self s of
        (Inl e, s') \<Rightarrow> (Inl e, s')
      | (Inr self1, s') \<Rightarrow> (Inr (self1\<lparr>templateids := x\<rparr>), s'))"
  by (simp add: resolve_target_def uniprot_query_string_def split: sum.splits prod.splits list.splits)

lemma prepare_templateids:
  "prepare env (self\<lparr>templateids := x\<rparr>) s =
     (case prepare env self s of
        (Inl e, s') \<Rightarrow> (Inl e, s')
      | (Inr (self1, ex), s') \<Rightarrow> (Inr (self1\<lparr>templateids := x\<rparr>, ex), s'))"
  by (simp add: prepare_def resolve_target_templateids check_target_args_def
        split: sum.splits prod.splits)

lemma align_and_select_templateids:
  "align_and_select env (self\<lparr>templateids := x\<rparr>) s = align_and_select env (self\<lparr>templateids := y\<rparr>) s"
  by (simp add: align_and_select_def split: prod.splits sum.splits option.splits)

lemma templates_from_pdb_templateids:
  "templates_from_pdb env (self\<lparr>templateids := x\<rparr>) ex s
     = templates_from_pdb env (self\<lparr>templateids := y\<rparr>) ex s"
  by (simp add: templates_from_pdb_def split: prod.splits sum.splits)

lemma templates_from_uniprot_query_templateids:
  "templates_from_uniprot_query env (self\<lparr>templateids := x\<rparr>) ex s
     = templates_from_uniprot_query env (self\<lparr>templateids := y\<rparr>) ex s"
  by (simp add: templates_from_uniprot_query_def
        align_and_select_templateids [where x = x and y = y]
        split: prod.splits sum.splits)

lemma templates_from_existing_templateids:
  "templates_from_existing env (self\<lparr>templateids := x\<rparr>) ex s
     = templates_from_existing env (self\<lparr>templateids := y\<rparr>) ex s"
  by (simp add: templates_from_existing_def align_and_select_templateids [where x = x and y = y])

lemma resolve_templates_empty:
  "resolve_templates env (self\<lparr>templateids := Some []\<rparr>) ex s
     = resolve_templates env (self\<lparr>templateids := None\<rparr>) ex s"
  by (simp add: resolve_templates_def truthy_def
        templates_from_pdb_templateids [where x = "Some []" and y = None]
        templates_from_uniprot_query_templateids [where x = "Some []" and y = None]
        templates_from_existing_templateids [where x = "Some []" and y = None])

text \<open>
  Claim C10. An empty list of template identifiers gives the run that no template identifiers
  give: same calls, same exception or same object left. The test of line 74 is false for it, so
  the way to the templates is chosen among the other three, as for \<^verbatim>\<open>None\<close>, and the check
  of line 75 is not made.
\<close>

theorem empty_templateids_as_absent:
  "QuickModel_init env (self\<lparr>templateids := Some []\<rparr>) s
     = QuickModel_init env (self\<lparr>templateids := None\<rparr>) s
   \<and> resolve_templates env (self\<lparr>templateids := Some []\<rparr>) ex s
     = resolve_templates env (self\<lparr>templateids := None\<rparr>) ex s
   \<and> spec_path (self\<lparr>templateids := Some []\<rparr>) = spec_path (self\<lparr>templateids := None\<rparr>)
   \<and> spec_path (self\<lparr>templateids := Some []\<rparr>) \<noteq> Explicit_Ids
   \<and> resolve_templates env (self\<lparr>templateids := Some []\<rparr>) ex s
     = follow_path (spec_path (self\<lparr>templateids := Some []\<rparr>)) env
         (self\<lparr>templateids := Some []\<rparr>) ex s"
proof (intro conjI)
  show "QuickModel_init env (self\<lparr>templateids := Some []\<rparr>) s
     = QuickModel_init env (self\<lparr>templateids := None\<rparr>) s"
    by (simp add: QuickModel_init_def prepare_templateids resolve_templates_empty
          split: prod.splits sum.splits)
  show "resolve_templates env (self\<lparr>templateids := Some []\<rparr>) ex s
     = resolve_templates env (self\<lparr>templateids := None\<rparr>) ex s"
    by (rule resolve_templates_empty)
  show "spec_path (self\<lparr>templateids := Some []\<rparr>) = spec_path (self\<lparr>templateids := None\<rparr>)"
    by (simp add: spec_path_def truthy_def)
  show "spec_path (self\<lparr>templateids := Some []\<rparr>) \<noteq> Explicit_Ids"
    by (simp add: spec_path_def truthy_def)
  show "resolve_templates env (self\<lparr>templateids := Some []\<rparr>) ex s
     = follow_path (spec_path (self\<lparr>templateids := Some []\<rparr>)) env
         (self\<lparr>templateids := Some []\<rparr>) ex s"
    by (simp add: resolve_templates_def spec_path_def)
qed


theorem empty_templateids_as_absent_witness:
  "QuickModel_init example_env
       ((example_with (Some (Finite 50)) False True None)\<lparr>templateids := Some []\<rparr>) (start [])
     = QuickModel_init example_env (example_with (Some (Finite 50)) False True None) (start [])
   \<and> QuickModel_init example_env
       ((example_with (Some (Finite 50)) False True None)\<lparr>templateids := Some []\<rparr>) (start [])
     = Some (Inr ((example_with (Some (Finite 50)) False True None)\<lparr>templateids := Some [''T1'']\<rparr>),
             \<lparr>world = [],
              trace = [Get_Templates_Resolved_Seq,
                       Align_Targets_And_Templates (Some ''EGFR_HUMAN_D0'') None,
                       Open_Readlines ''models/EGFR_HUMAN_D0/sequence-identities.txt'',
                       Align_Targets_And_Templates (Some ''EGFR_HUMAN_D0'') (Some [''T1'']),
                       Build_Models (Some ''EGFR_HUMAN_D0'') (Some [''T1'']),
                       Cluster_Models (Some ''EGFR_HUMAN_D0''),
                       Refine_Implicit_Md (Some ''EGFR_HUMAN_D0'') (Some [''T1'']) 100,
                       Solvate_Models (Some ''EGFR_HUMAN_D0'') (Some [''T1'']),
                       Determine_Nwaters (Some ''EGFR_HUMAN_D0'') (Some [''T1'']),
                       Refine_Explicit_Md (Some ''EGFR_HUMAN_D0'') (Some [''T1'']) 100,
                       Package_For_Fah (Some ''EGFR_HUMAN_D0'') 1]\<rparr>)"
proof -
  let ?self = "example_with (Some (Finite 50)) False True None"
  have none: "?self\<lparr>templateids := None\<rparr> = ?self"
    by (simp add: example_with_def example_self_def)
  from empty_templateids_as_absent [of example_env ?self "start []"]
  have "QuickModel_init example_env (?self\<lparr>templateids := Some []\<rparr>) (start [])
      = QuickModel_init example_env ?self (start [])"
    by (simp only: none)
  then show ?thesis
    by (simp only: example_packaged_run simp_thms)
qed

section \<open>The way to the templates\<close>

lemma only_selectionI:
  "trace s' = trace s @ evs \<Longrightarrow> list_all selection_call evs \<Longrightarrow> only_selection_between s s'"
  by (simp add: only_selection_between_def calls_since_append)

lemma only_selectionD:
  "only_selection_between s s' \<Longrightarrow> \<exists>evs. trace s' = trace s @ evs \<and> list_all selection_call evs"
  unfolding only_selection_between_def by blast

lemma only_selection_refl [simp]: "only_selection_between s s"
  by (rule only_selectionI [of _ _ "[]"]) simp_all

lemma only_selection_trans:
  assumes "only_selection_between s s1" and "only_selection_between s1 s2"
  shows "only_selection_between s s2"
proof -
  from assms(1) obtain e1 where e1: "trace s1 = trace s @ e1" "list_all selection_call e1"
    by (blast dest: only_selectionD)
  from assms(2) obtain e2 where e2: "trace s2 = trace s1 @ e2" "list_all selection_call e2"
    by (blast dest: only_selectionD)
  show ?thesis
    by (rule only_selectionI [of _ _ "e1 @ e2"]) (simp_all add: e1 e2)
qed

lemma only_selection_log: "selection_call c \<Longrightarrow> only_selection_between s (log c s)"
  by (rule only_selectionI [of _ _ "[c]"]) simp_all

lemma only_selection_input: "input env p s = (r, s') \<Longrightarrow> only_selection_between s s'"
  by (rule only_selectionI [of _ _ "[Raw_Input p]"]) (simp_all add: input_trace)

lemma prompt_round_selection:
  assumes "prompt_round env tid df s = (r, s')"
  shows "only_selection_between s s'"
proof -
  obtain r1 s1 where i1: "input env (cutoff_prompt tid) s = (r1, s1)"
    by (cases "input env (cutoff_prompt tid) s")
  have q1: "only_selection_between s s1" using i1 by (rule only_selection_input)
  show ?thesis
  proof (cases r1)
    case (Inl e)
    with assms i1 have "s' = s1" by (simp add: prompt_round_def)
    with q1 show ?thesis by simp
  next
    case (Inr a)
    show ?thesis
    proof (cases "py_float env a")
      case None
      with assms i1 Inr have "s' = s1" by (simp add: prompt_round_def)
      with q1 show ?thesis by simp
    next
      case (Some cutoff)
      obtain r2 s2 where i2:
        "input env confirm_prompt (log (Print_Chosen cutoff (ntemplates df cutoff)) s1) = (r2, s2)"
        by (cases "input env confirm_prompt (log (Print_Chosen cutoff (ntemplates df cutoff)) s1)")
      from assms i1 Inr Some i2 have "s' = s2"
        by (auto simp: prompt_round_def split: sum.splits)
      moreover have "only_selection_between s1 (log (Print_Chosen cutoff (ntemplates df cutoff)) s1)"
        by (rule only_selection_log) simp
      moreover have "only_selection_between (log (Print_Chosen cutoff (ntemplates df cutoff)) s1) s2"
        using i2 by (rule only_selection_input)
      ultimately show ?thesis using q1 by (blast intro: only_selection_trans)
    qed
  qed
qed

lemma choose_seqid_cutoff_selection:
  "choose_seqid_cutoff env tid df s = Some y \<Longrightarrow> only_selection_between s (snd y)"
proof (induction rule: choose_seqid_cutoff.raw_induct [rotated 1, consumes 1])
  case (1 f env tid df s y)
  obtain r s1 where round: "prompt_round env tid df s = (r, s1)"
    by (cases "prompt_round env tid df s")
  have q1: "only_selection_between s s1"
    using round by (rule prompt_round_selection)
  show ?case
  proof (cases r)
    case (Inl e)
    with "1.hyps" round have "y = (Inl e, s1)" by simp
    with q1 show ?thesis by simp
  next
    case (Inr ca)
    obtain cutoff answer where ca: "ca = (cutoff, answer)" by (cases ca)
    show ?thesis
    proof (cases "affirmative answer")
      case True
      with "1.hyps" round Inr ca have "y = (Inr cutoff, s1)" by simp
      with q1 show ?thesis by simp
    next
      case False
      with "1.hyps" round Inr ca have "f env tid df s1 = Some y" by simp
      then have "only_selection_between s1 (snd y)" by (rule "1.IH")
      with q1 show ?thesis by (rule only_selection_trans)
    qed
  qed
qed

lemma print_histogram_selection: "only_selection_between s (print_histogram df s)"
  by (rule only_selectionI [OF print_histogram_trace]) (simp add: list_all_iff)

lemma select_templates_selection:
  assumes "select_templates_based_on_seqid_cutoff env tid cutoff s = Some (r, s')"
  shows "only_selection_between s s'"
proof (cases tid)
  case None
  with assms show ?thesis by (simp add: select_templates_based_on_seqid_cutoff_def)
next
  case (Some t)
  let ?s1 = "log (Open_Readlines (seqid_filepath env t)) s"
  have q1: "only_selection_between s ?s1" by (rule only_selection_log) simp
  show ?thesis
  proof (cases "readlines env (seqid_filepath env t) (world s)")
    case (Inl x)
    with assms Some have "s' = ?s1" by (simp add: select_templates_based_on_seqid_cutoff_def)
    with q1 show ?thesis by simp
  next
    case lines: (Inr lines)
    show ?thesis
    proof (cases "read_seqids (py_float env) lines")
      case (Inl e)
      with assms Some lines have "s' = ?s1"
        by (simp add: select_templates_based_on_seqid_cutoff_def)
      with q1 show ?thesis by simp
    next
      case df: (Inr df)
      show ?thesis
      proof (cases cutoff)
        case (Some c)
        with assms \<open>tid = Some t\<close> lines df have "s' = ?s1"
          by (simp add: select_templates_based_on_seqid_cutoff_def)
        with q1 show ?thesis by simp
      next
        case None
        with assms \<open>tid = Some t\<close> lines df obtain r0 where
          "choose_seqid_cutoff env tid df (print_histogram df ?s1) = Some (r0, s')"
          by (auto simp: select_templates_based_on_seqid_cutoff_def
                split: option.splits sum.splits prod.splits)
        then have "only_selection_between (print_histogram df ?s1) s'"
          by (auto dest: choose_seqid_cutoff_selection)
        with q1 print_histogram_selection [of ?s1 df] show ?thesis
          by (blast intro: only_selection_trans)
      qed
    qed
  qed
qed

lemma align_and_select_selection:
  assumes "align_and_select env self s = Some (r, s')"
  shows "only_selection_between s s'"
proof -
  let ?a = "Align_Targets_And_Templates (targetid self) None"
  obtain r1 s1 where al: "align_all_templates env (targetid self) s = (r1, s1)"
    by (cases "align_all_templates env (targetid self) s")
  then have "trace s1 = trace s @ [?a]"
    unfolding align_all_templates_def by (rule invoke_trace)
  then have q1: "only_selection_between s s1"
    by (rule only_selectionI) simp
  show ?thesis
  proof (cases r1)
    case (Inl e)
    with assms al have "s' = s1" by (simp add: align_and_select_def)
    with q1 show ?thesis by simp
  next
    case (Inr u)
    with assms al obtain r2 where
      "select_templates_based_on_seqid_cutoff env (targetid self) (model_seqid_cutoff self) s1
         = Some (r2, s')"
      by (auto simp: align_and_select_def split: option.splits sum.splits prod.splits)
    then have "only_selection_between s1 s'" by (rule select_templates_selection)
    with q1 show ?thesis by (rule only_selection_trans)
  qed
qed

lemma templates_from_uniprot_query_calls:
  assumes "templates_from_uniprot_query env self ex s = Some (r, s')"
  shows "\<exists>rest. calls_since s s' =
           Gather_Templates_From_Uniprot (template_uniprot_query self)
             (uniprot_domain_regex self) (structure_dirs self) # rest
         \<and> list_all selection_call rest"
proof -
  let ?g = "Gather_Templates_From_Uniprot (template_uniprot_query self)
              (uniprot_domain_regex self) (structure_dirs self)"
  obtain r1 s1 where g: "invoke env ?g s = (r1, s1)"
    by (cases "invoke env ?g s")
  then have t1: "trace s1 = trace s @ [?g]" by (rule invoke_trace)
  show ?thesis
  proof (cases r1)
    case (Inl e)
    with assms g have "s' = s1" by (simp add: templates_from_uniprot_query_def)
    with t1 have "calls_since s s' = ?g # []" by (simp add: calls_since_append)
    then show ?thesis by simp
  next
    case (Inr u)
    with assms g have "align_and_select env self s1 = Some (r, s')"
      by (simp add: templates_from_uniprot_query_def)
    then have "only_selection_between s1 s'" by (rule align_and_select_selection)
    then obtain evs where "trace s' = trace s1 @ evs" "list_all selection_call evs"
      by (blast dest: only_selectionD)
    with t1 have "calls_since s s' = ?g # evs" by (simp add: calls_since_append)
    with \<open>list_all selection_call evs\<close> show ?thesis by blast
  qed
qed

lemma templates_from_existing_calls:
  assumes "templates_from_existing env self ex s = Some (r, s')"
  shows "list_all selection_call (calls_since s s')"
proof -
  from assms have "only_selection_between s s'"
    by (auto simp: templates_from_existing_def split: if_splits dest: align_and_select_selection)
  then show ?thesis by (simp add: only_selection_between_def)
qed

text \<open>
  Claim C7. The chain of lines 74-89 takes the way the specification's priority order names:
  the given identifiers when there are some, else the structure sources when there are some,
  else the discovery query when there is one, else the existing templates. One way is taken
  and its calls only: with identifiers given the resolution makes no call at all; with structure
  sources (and no identifiers) it makes the gathering from the structures and the reading of
  the resolved templates, so no gathering by query; with a query the one gathering is the one
  by query, followed by selection calls; on the last way there are selection calls only.
  Given means true for Python: neither \<^verbatim>\<open>None\<close> nor empty.
\<close>

theorem template_resolution_by_priority:
  "resolve_templates env self ex s = follow_path (spec_path self) env self ex s
   \<and> (truthy (templateids self) \<longrightarrow> spec_path self = Explicit_Ids)
   \<and> (truthy (pdbids self) \<and> \<not> truthy (templateids self) \<longrightarrow> spec_path self = Structure_Source)
   \<and> (\<forall>r s'. resolve_templates env self ex s = Some (r, s') \<longrightarrow>
         (case spec_path self of
            Explicit_Ids \<Rightarrow> s' = s \<and> calls_since s s' = []
          | Structure_Source \<Rightarrow>
              (\<exists>k. calls_since s s' =
                 take (Suc k) [Gather_Templates_From_Pdb (pdbids self) (uniprot_domain_regex self)
                                 (chainids self) (structure_dirs self),
                               Get_Templates_Resolved_Seq])
          | Discovery_Query \<Rightarrow>
              (\<exists>rest. calls_since s s' =
                 Gather_Templates_From_Uniprot (template_uniprot_query self)
                   (uniprot_domain_regex self) (structure_dirs self) # rest
                 \<and> list_all selection_call rest)
          | Fallback \<Rightarrow> list_all selection_call (calls_since s s')))"
proof (intro conjI impI allI)
  show eq: "resolve_templates env self ex s = follow_path (spec_path self) env self ex s"
    by (simp add: resolve_templates_def spec_path_def)
  show "spec_path self = Explicit_Ids" if "truthy (templateids self)"
    using that by (simp add: spec_path_def)
  show "spec_path self = Structure_Source" if "truthy (pdbids self) \<and> \<not> truthy (templateids self)"
    using that by (simp add: spec_path_def)
  fix r s'
  assume "resolve_templates env self ex s = Some (r, s')"
  with eq have run: "follow_path (spec_path self) env self ex s = Some (r, s')" by simp
  show "case spec_path self of
          Explicit_Ids \<Rightarrow> s' = s \<and> calls_since s s' = []
        | Structure_Source \<Rightarrow>
            (\<exists>k. calls_since s s' =
               take (Suc k) [Gather_Templates_From_Pdb (pdbids self) (uniprot_domain_regex self)
                               (chainids self) (structure_dirs self),
                             Get_Templates_Resolved_Seq])
        | Discovery_Query \<Rightarrow>
            (\<exists>rest. calls_since s s' =
               Gather_Templates_From_Uniprot (template_uniprot_query self)
                 (uniprot_domain_regex self) (structure_dirs self) # rest
               \<and> list_all selection_call rest)
        | Fallback \<Rightarrow> list_all selection_call (calls_since s s')"
  proof (cases "spec_path self")
    case Explicit_Ids
    with run have "s' = s"
      by (auto simp: use_given_templateids_def split: if_splits)
    with Explicit_Ids show ?thesis by (simp add: calls_since_def)
  next
    case Structure_Source
    with run have "templates_from_pdb env self ex s = Some (r, s')" by simp
    from templates_from_pdb_trace [OF this] Structure_Source show ?thesis
      by (auto simp: calls_since_append)
  next
    case Discovery_Query
    with run have "templates_from_uniprot_query env self ex s = Some (r, s')" by simp
    from templates_from_uniprot_query_calls [OF this] Discovery_Query show ?thesis by simp
  next
    case Fallback
    with run have "templates_from_existing env self ex s = Some (r, s')" by simp
    from templates_from_existing_calls [OF this] Fallback show ?thesis by simp
  qed
qed


theorem template_resolution_by_priority_witness:
  "spec_path (example_self\<lparr>templateids := Some [''T9''], pdbids := Some [''4KFJ''],
      template_uniprot_query := Some ''domain:kinase''\<rparr>) = Explicit_Ids
   \<and> resolve_templates example_env
        (example_self\<lparr>templateids := Some [''T9''], pdbids := Some [''4KFJ''],
           template_uniprot_query := Some ''domain:kinase''\<rparr>) True example_prepared
      = Some (Inr (example_self\<lparr>templateids := Some [''T9''], pdbids := Some [''4KFJ''],
                     template_uniprot_query := Some ''domain:kinase''\<rparr>), example_prepared)
   \<and> spec_path (example_self\<lparr>pdbids := Some [''4KFJ''],
        template_uniprot_query := Some ''domain:kinase''\<rparr>) = Structure_Source
   \<and> resolve_templates example_env
        (example_self\<lparr>pdbids := Some [''4KFJ''], template_uniprot_query := Some ''domain:kinase''\<rparr>)
        True example_prepared
      = Some (Inr (example_self\<lparr>templateids := Some [''T1'', ''T2'', ''T3''],
                     pdbids := Some [''4KFJ''], template_uniprot_query := Some ''domain:kinase''\<rparr>),
              \<lparr>world = [],
               trace = [Get_Templates_Resolved_Seq,
                        Gather_Templates_From_Pdb (Some [''4KFJ'']) None None None,
                        Get_Templates_Resolved_Seq]\<rparr>)"
proof -
  let ?given = "example_self\<lparr>templateids := Some [''T9''], pdbids := Some [''4KFJ''],
      template_uniprot_query := Some ''domain:kinase''\<rparr>"
  let ?pdb = "example_self\<lparr>pdbids := Some [''4KFJ''],
      template_uniprot_query := Some ''domain:kinase''\<rparr>"
  have fields: "truthy (templateids ?given)" "truthy (pdbids ?pdb) \<and> \<not> truthy (templateids ?pdb)"
    by (simp_all add: truthy_def example_self_def)
  from template_resolution_by_priority [of example_env ?given True example_prepared] fields(1)
  have given: "spec_path ?given = Explicit_Ids"
    "resolve_templates example_env ?given True example_prepared
       = use_given_templateids example_env ?given True example_prepared"
    by simp_all
  from template_resolution_by_priority [of example_env ?pdb True example_prepared] fields(2)
  have pdb: "spec_path ?pdb = Structure_Source"
    "resolve_templates example_env ?pdb True example_prepared
       = templates_from_pdb example_env ?pdb True example_prepared"
    by simp_all
  have "templates_from_pdb example_env ?pdb True example_prepared
      = Some (Inr (?pdb\<lparr>templateids := Some [''T1'', ''T2'', ''T3'']\<rparr>),
              \<lparr>world = [],
               trace = [Get_Templates_Resolved_Seq,
                        Gather_Templates_From_Pdb (Some [''4KFJ'']) None None None,
                        Get_Templates_Resolved_Seq]\<rparr>)"
    by (simp add: templates_from_pdb_def invoke_def example_env_def example_self_def
          example_prepared_def log_def)
  with given pdb show ?thesis
    by (simp add: use_given_templateids_def example_self_def)
qed

section \<open>Choosing the threshold at the console\<close>

lemma declined_rounds_choose:
  "declined_rounds env tid df n s = Some sn \<Longrightarrow>
     choose_seqid_cutoff env tid df s = choose_seqid_cutoff env tid df sn"
proof (induction n arbitrary: s)
  case 0
  then show ?case by simp
next
  case (Suc n)
  from Suc.prems obtain cutoff answer s1 where
    round: "prompt_round env tid df s = (Inr (cutoff, answer), s1)"
    and no: "\<not> affirmative answer"
    and rest: "declined_rounds env tid df n s1 = Some sn"
    by (auto split: prod.splits sum.splits if_splits)
  from round no have "choose_seqid_cutoff env tid df s = choose_seqid_cutoff env tid df s1"
    by (simp add: choose_seqid_cutoff.simps [of env tid df s])
  with Suc.IH [OF rest] show ?case by simp
qed

lemma declined_rounds_trace:
  "declined_rounds env tid df n s = Some sn \<Longrightarrow>
     \<exists>declined. length declined = n
       \<and> trace sn = trace s @ concat (map (round_calls tid df) declined)"
proof (induction n arbitrary: s)
  case 0
  then show ?case by simp
next
  case (Suc n)
  from Suc.prems obtain cutoff answer s1 where
    round: "prompt_round env tid df s = (Inr (cutoff, answer), s1)"
    and rest: "declined_rounds env tid df n s1 = Some sn"
    by (auto split: prod.splits sum.splits if_splits)
  from Suc.IH [OF rest] obtain declined where
    d: "length declined = n" "trace sn = trace s1 @ concat (map (round_calls tid df) declined)"
    by blast
  from prompt_round_trace [OF round] d
  have "length (cutoff # declined) = Suc n"
    "trace sn = trace s @ concat (map (round_calls tid df) (cutoff # declined))"
    by simp_all
  then show ?case by blast
qed

lemma choose_seqid_cutoff_confirmed:
  "prompt_round env tid df s = (Inr (cutoff, answer), s') \<Longrightarrow> affirmative answer \<Longrightarrow>
     choose_seqid_cutoff env tid df s = Some (Inr cutoff, s')"
  by (simp add: choose_seqid_cutoff.simps [of env tid df s])

lemma choose_seqid_cutoff_returns:
  "choose_seqid_cutoff env tid df s = Some y \<Longrightarrow> fst y = Inr cutoff \<Longrightarrow>
     \<exists>n sn answer. declined_rounds env tid df n s = Some sn
       \<and> prompt_round env tid df sn = (Inr (cutoff, answer), snd y) \<and> affirmative answer"
proof (induction rule: choose_seqid_cutoff.raw_induct [rotated 1, consumes 1])
  case (1 f env tid df s y)
  obtain r s1 where round: "prompt_round env tid df s = (r, s1)"
    by (cases "prompt_round env tid df s")
  show ?case
  proof (cases r)
    case (Inl e)
    with "1.hyps" round have "y = (Inl e, s1)" by simp
    with "1.prems" show ?thesis by simp
  next
    case (Inr ca)
    obtain c answer where ca: "ca = (c, answer)" by (cases ca)
    show ?thesis
    proof (cases "affirmative answer")
      case True
      with "1.hyps" round Inr ca have "y = (Inr c, s1)" by simp
      with "1.prems" round Inr ca True
      have "declined_rounds env tid df 0 s = Some s
          \<and> prompt_round env tid df s = (Inr (cutoff, answer), snd y) \<and> affirmative answer"
        by simp
      then show ?thesis by blast
    next
      case False
      with "1.hyps" round Inr ca have "f env tid df s1 = Some y" by simp
      from "1.IH" [OF this "1.prems"] obtain n sn answer' where
        "declined_rounds env tid df n s1 = Some sn"
        "prompt_round env tid df sn = (Inr (cutoff, answer'), snd y)" "affirmative answer'"
        by blast
      with round Inr ca False
      have "declined_rounds env tid df (Suc n) s = Some sn
          \<and> prompt_round env tid df sn = (Inr (cutoff, answer'), snd y) \<and> affirmative answer'"
        by simp
      then show ?thesis by blast
    qed
  qed
qed

text \<open>
  Claim C9. With no threshold given (and a report that reads as the rows \<open>df\<close>), the selection
  first prints, for the cutoffs 0, 10, ..., 100, the number of rows strictly above the cutoff.
  Then, after any number \<open>n\<close> of rounds answered otherwise, a round answered affirmatively
  (\<^verbatim>\<open>y\<close> or \<^verbatim>\<open>yes\<close>, in any case) ends the loop: the selection returns the identifiers
  of the rows strictly above the threshold typed in that last round, and its calls are the
  reading of the file, the eleven counts, and \<open>n + 1\<close> rounds of prompt for a threshold, count,
  prompt for a confirmation. Conversely the selection returns identifiers only in this way.
\<close>

theorem interactive_selection:
  assumes "readlines env (seqid_filepath env t) (world s) = Inr lines"
    and "read_seqids (py_float env) lines = Inr df"
  shows "(\<forall>n sn cutoff answer s'.
            declined_rounds env (Some t) df n
                (print_histogram df (log (Open_Readlines (seqid_filepath env t)) s)) = Some sn
            \<and> prompt_round env (Some t) df sn = (Inr (cutoff, answer), s')
            \<and> affirmative answer \<longrightarrow>
            select_templates_based_on_seqid_cutoff env (Some t) None s
              = Some (Inr (map fst (filter (\<lambda>row. float_gt (snd row) cutoff) df)), s')
            \<and> (\<exists>declined. length declined = n
                 \<and> calls_since s s' =
                     Open_Readlines (seqid_filepath env t) #
                     map (\<lambda>k. Print_Ntemplates k
                            (length (filter (\<lambda>row. float_gt (snd row) (Finite (of_int k))) df)))
                       [0, 10, 20, 30, 40, 50, 60, 70, 80, 90, 100] @
                     concat (map (round_calls (Some t) df) declined) @
                     round_calls (Some t) df cutoff))
     \<and> (\<forall>tids s'.
            select_templates_based_on_seqid_cutoff env (Some t) None s = Some (Inr tids, s') \<longrightarrow>
            (\<exists>n sn cutoff answer.
               declined_rounds env (Some t) df n
                   (print_histogram df (log (Open_Readlines (seqid_filepath env t)) s)) = Some sn
               \<and> prompt_round env (Some t) df sn = (Inr (cutoff, answer), s')
               \<and> affirmative answer
               \<and> tids = map fst (filter (\<lambda>row. float_gt (snd row) cutoff) df)))"
proof (intro conjI allI impI)
  let ?s0 = "print_histogram df (log (Open_Readlines (seqid_filepath env t)) s)"
  have sel: "select_templates_based_on_seqid_cutoff env (Some t) None s =
      (case choose_seqid_cutoff env (Some t) df ?s0 of
         None \<Rightarrow> None
       | Some (Inl e, s') \<Rightarrow> Some (Inl e, s')
       | Some (Inr cutoff, s') \<Rightarrow> Some (Inr (selected_templateids df cutoff), s'))"
    using assms by (simp add: select_templates_based_on_seqid_cutoff_def)
  have sel_ids: "selected_templateids df c = map fst (filter (\<lambda>row. float_gt (snd row) c) df)" for c
    by (simp add: selected_templateids_def rows_above_def)
  have hist: "trace ?s0 = trace s @
      Open_Readlines (seqid_filepath env t) #
      map (\<lambda>k. Print_Ntemplates k
             (length (filter (\<lambda>row. float_gt (snd row) (Finite (of_int k))) df)))
        [0, 10, 20, 30, 40, 50, 60, 70, 80, 90, 100]"
    by (simp add: print_histogram_trace range_step_cutoffs ntemplates_def rows_above_def)
  {
    fix n sn cutoff answer s'
    assume a: "declined_rounds env (Some t) df n ?s0 = Some sn
        \<and> prompt_round env (Some t) df sn = (Inr (cutoff, answer), s')
        \<and> affirmative answer"
    then have d: "declined_rounds env (Some t) df n ?s0 = Some sn"
      and p: "prompt_round env (Some t) df sn = (Inr (cutoff, answer), s')"
      and y: "affirmative answer"
      by simp_all
    have "choose_seqid_cutoff env (Some t) df ?s0 = Some (Inr cutoff, s')"
      using declined_rounds_choose [OF d] choose_seqid_cutoff_confirmed [OF p y] by simp
    then show "select_templates_based_on_seqid_cutoff env (Some t) None s
        = Some (Inr (map fst (filter (\<lambda>row. float_gt (snd row) cutoff) df)), s')"
      by (simp add: sel sel_ids)
    from declined_rounds_trace [OF d] obtain declined where
      len: "length declined = n"
      and tr: "trace sn = trace ?s0 @ concat (map (round_calls (Some t) df) declined)"
      by blast
    from prompt_round_trace [OF p] tr hist
    have "trace s' = trace s @
        (Open_Readlines (seqid_filepath env t) #
         map (\<lambda>k. Print_Ntemplates k
                (length (filter (\<lambda>row. float_gt (snd row) (Finite (of_int k))) df)))
           [0, 10, 20, 30, 40, 50, 60, 70, 80, 90, 100] @
         concat (map (round_calls (Some t) df) declined) @
         round_calls (Some t) df cutoff)"
      by simp
    then have "calls_since s s' =
         Open_Readlines (seqid_filepath env t) #
         map (\<lambda>k. Print_Ntemplates k
                (length (filter (\<lambda>row. float_gt (snd row) (Finite (of_int k))) df)))
           [0, 10, 20, 30, 40, 50, 60, 70, 80, 90, 100] @
         concat (map (round_calls (Some t) df) declined) @
         round_calls (Some t) df cutoff"
      by (rule calls_since_append)
    with len show "\<exists>declined. length declined = n
        \<and> calls_since s s' =
            Open_Readlines (seqid_filepath env t) #
            map (\<lambda>k. Print_Ntemplates k
                   (length (filter (\<lambda>row. float_gt (snd row) (Finite (of_int k))) df)))
              [0, 10, 20, 30, 40, 50, 60, 70, 80, 90, 100] @
            concat (map (round_calls (Some t) df) declined) @
            round_calls (Some t) df cutoff"
      by blast
  }
  fix tids s'
  assume "select_templates_based_on_seqid_cutoff env (Some t) None s = Some (Inr tids, s')"
  then obtain cutoff where
    ch: "choose_seqid_cutoff env (Some t) df ?s0 = Some (Inr cutoff, s')"
    and tids: "tids = selected_templateids df cutoff"
    by (auto simp: sel split: option.splits sum.splits prod.splits)
  from choose_seqid_cutoff_returns [OF ch, of cutoff] obtain n sn answer where
    "declined_rounds env (Some t) df n ?s0 = Some sn"
    "prompt_round env (Some t) df sn = (Inr (cutoff, answer), s')" "affirmative answer"
    by auto
  with tids show "\<exists>n sn cutoff answer.
      declined_rounds env (Some t) df n ?s0 = Some sn
      \<and> prompt_round env (Some t) df sn = (Inr (cutoff, answer), s')
      \<and> affirmative answer
      \<and> tids = map fst (filter (\<lambda>row. float_gt (snd row) cutoff) df)"
    by (auto simp: sel_ids)
qed


lemma example_answers: "\<not> affirmative ''n''" "affirmative ''Y''"
  by code_simp+

theorem interactive_selection_witness:
  "select_templates_based_on_seqid_cutoff example_env (Some ''EGFR_HUMAN_D0'') None
       (start [''50'', ''n'', ''30'', ''Y''])
     = Some (Inr [''T1'', ''T2''],
        \<lparr>world = [],
         trace =
           [Open_Readlines ''models/EGFR_HUMAN_D0/sequence-identities.txt'',
            Print_Ntemplates 0 3, Print_Ntemplates 10 2, Print_Ntemplates 20 2,
            Print_Ntemplates 30 2, Print_Ntemplates 40 1, Print_Ntemplates 50 1,
            Print_Ntemplates 60 1, Print_Ntemplates 70 1, Print_Ntemplates 80 1,
            Print_Ntemplates 90 1, Print_Ntemplates 100 0,
            Raw_Input (cutoff_prompt (Some ''EGFR_HUMAN_D0'')),
            Print_Chosen (Finite 50) 1,
            Raw_Input confirm_prompt,
            Raw_Input (cutoff_prompt (Some ''EGFR_HUMAN_D0'')),
            Print_Chosen (Finite 30) 2,
            Raw_Input confirm_prompt]\<rparr>)"
proof -
  let ?t = "''EGFR_HUMAN_D0''"
  let ?path = "''models/EGFR_HUMAN_D0/sequence-identities.txt''"
  let ?hist = "[Open_Readlines ?path,
            Print_Ntemplates 0 3, Print_Ntemplates 10 2, Print_Ntemplates 20 2,
            Print_Ntemplates 30 2, Print_Ntemplates 40 1, Print_Ntemplates 50 1,
            Print_Ntemplates 60 1, Print_Ntemplates 70 1, Print_Ntemplates 80 1,
            Print_Ntemplates 90 1, Print_Ntemplates 100 (0::nat)] :: nat call list"
  let ?round1 = "[Raw_Input (cutoff_prompt (Some ?t)), Print_Chosen (Finite 50) 1,
            Raw_Input confirm_prompt] :: nat call list"
  let ?round2 = "[Raw_Input (cutoff_prompt (Some ?t)), Print_Chosen (Finite 30) 2,
            Raw_Input confirm_prompt] :: nat call list"
  have path: "seqid_filepath example_env ?t = ?path"
    by (simp add: example_env_def seqid_filepath_def path_join_def)
  have fl: "readlines example_env (seqid_filepath example_env ?t)
      (world (start [''50'', ''n'', ''30'', ''Y''])) = Inr example_lines"
    by (simp add: path) (simp add: example_env_def)
  have s0: "print_histogram example_rows
        (log (Open_Readlines (seqid_filepath example_env ?t)) (start [''50'', ''n'', ''30'', ''Y'']))
      = \<lparr>world = [''50'', ''n'', ''30'', ''Y''], trace = ?hist\<rparr>"
    by (simp add: path print_histogram_def range_step_cutoffs log_def start_def ntemplates_def
          rows_above_def example_rows_def)
  have r1: "prompt_round example_env (Some ?t) example_rows
        \<lparr>world = [''50'', ''n'', ''30'', ''Y''], trace = ?hist\<rparr>
      = (Inr (Finite 50, ''n''), \<lparr>world = [''30'', ''Y''], trace = ?hist @ ?round1\<rparr>)"
    by (simp add: prompt_round_def input_def example_env_def example_float_def log_def
          ntemplates_def rows_above_def example_rows_def)
  have r2: "prompt_round example_env (Some ?t) example_rows
        \<lparr>world = [''30'', ''Y''], trace = ?hist @ ?round1\<rparr>
      = (Inr (Finite 30, ''Y''), \<lparr>world = [], trace = ?hist @ ?round1 @ ?round2\<rparr>)"
    by (simp add: prompt_round_def input_def example_env_def example_float_def log_def
          ntemplates_def rows_above_def example_rows_def)
  have d: "declined_rounds example_env (Some ?t) example_rows (Suc 0)
        (print_histogram example_rows
           (log (Open_Readlines (seqid_filepath example_env ?t))
              (start [''50'', ''n'', ''30'', ''Y''])))
      = Some \<lparr>world = [''30'', ''Y''], trace = ?hist @ ?round1\<rparr>"
    by (simp only: s0 declined_rounds.simps r1 prod.case sum.case example_answers if_False)
  from interactive_selection [OF fl example_read_seqids] d r2 example_answers(2)
  have "select_templates_based_on_seqid_cutoff example_env (Some ?t) None
        (start [''50'', ''n'', ''30'', ''Y''])
      = Some (Inr (map fst (filter (\<lambda>row. float_gt (snd row) (Finite 30)) example_rows)),
              \<lparr>world = [], trace = ?hist @ ?round1 @ ?round2\<rparr>)"
    by blast
  then show ?thesis
    by (simp add: example_rows_def)
qed

end
